theory Spec2Isabelle
  imports Main
begin

section \<open>Python values\<close>

text \<open>
  The argument bag of a tool call and every JSON document that travels to or from the
  remote service is a Python value built from \<open>None\<close>, booleans, integers, strings, lists
  and dictionaries with string keys. A dictionary is an association list, so that the
  insertion order Python keeps (and prints) is part of the value; keys are assumed to be
  distinct and a lookup takes the first entry. Strings are byte strings (UTF-8), floats are
  left out: no tool schema has a number that is not an integer.
\<close>

datatype pyval =
    PNone
  | PBool bool
  | PInt int
  | PStr string
  | PList "pyval list"
  | PDict "(string \<times> pyval) list"

text \<open>An exception is its class name and its message; \<open>str(e)\<close> is the message.\<close>

datatype exn = Exn (exn_class: string) (exn_message: string)

text \<open>Truthiness, as \<open>if x:\<close>, \<open>not x\<close> and \<open>x or y\<close> test it.\<close>

fun truthy :: "pyval \<Rightarrow> bool" where
  "truthy PNone = False"
| "truthy (PBool b) = b"
| "truthy (PInt i) = (i \<noteq> 0)"
| "truthy (PStr s) = (s \<noteq> [])"
| "truthy (PList xs) = (xs \<noteq> [])"
| "truthy (PDict kvs) = (kvs \<noteq> [])"

fun type_name :: "pyval \<Rightarrow> string" where
  "type_name PNone = ''NoneType''"
| "type_name (PBool b) = ''bool''"
| "type_name (PInt i) = ''int''"
| "type_name (PStr s) = ''str''"
| "type_name (PList xs) = ''list''"
| "type_name (PDict kvs) = ''dict''"

subsection \<open>Text of a value: \<open>str\<close> and \<open>repr\<close>\<close>

definition newline :: string where
  "newline = [CHR 0x0A]"

definition backslash :: string where
  "backslash = [CHR 0x5C]"

definition squote :: string where
  "squote = [CHR 0x27]"

text \<open>\<open>sep.join(items)\<close> on a list of strings.\<close>

fun join_str :: "string \<Rightarrow> string list \<Rightarrow> string" where
  "join_str sep [] = []"
| "join_str sep [x] = x"
| "join_str sep (x # y # ys) = x @ sep @ join_str sep (y # ys)"

definition digit_char :: "nat \<Rightarrow> char" where
  "digit_char n = ''0123456789abcdef'' ! n"

fun show_nat :: "nat \<Rightarrow> string" where
  "show_nat n = (if n < 10 then [digit_char n] else show_nat (n div 10) @ [digit_char (n mod 10)])"

declare show_nat.simps [simp del]

definition show_int :: "int \<Rightarrow> string" where
  "show_int i = (if i < 0 then ''-'' @ show_nat (nat (- i)) else show_nat (nat i))"

text \<open>
  Strings are UTF-8 bytes, Python's are code points: a code point is a byte that is not a
  continuation byte together with the continuation bytes (0x80 to 0xBF) that follow it.
\<close>

definition is_continuation :: "char \<Rightarrow> bool" where
  "is_continuation ch = (128 \<le> (of_char ch :: nat) \<and> (of_char ch :: nat) < 192)"

function code_points :: "string \<Rightarrow> string list" where
  "code_points [] = []"
| "code_points (ch # s) = (ch # takeWhile is_continuation s) # code_points (dropWhile is_continuation s)"
  by pat_completeness auto
termination
  by (relation "measure length") (auto simp: length_dropWhile_le less_Suc_eq_le)

text \<open>
  \<open>repr\<close> of a string: single quotes, unless the string holds a single quote and no
  double quote; the backslash, the chosen quote, tab, newline and carriage return are
  escaped, the other code points that are not printable are written \<open>\xNN\<close>: the control
  characters below U+0020, U+007F, U+0080 to U+00A0 and U+00AD. Code points from U+0100 on
  are kept as they are, which is what Python does for the printable ones among them.
\<close>

definition hex_escape :: "nat \<Rightarrow> string" where
  "hex_escape n = backslash @ ''x'' @ [digit_char (n div 16), digit_char (n mod 16)]"

definition repr_char :: "char \<Rightarrow> char \<Rightarrow> string" where
  "repr_char q ch =
     (if ch = CHR 0x5C then backslash @ backslash
      else if ch = q then backslash @ [q]
      else if ch = CHR 0x09 then backslash @ ''t''
      else if ch = CHR 0x0A then backslash @ ''n''
      else if ch = CHR 0x0D then backslash @ ''r''
      else if (of_char ch :: nat) < 32 \<or> ch = CHR 0x7F then hex_escape (of_char ch)
      else [ch])"

fun repr_point :: "char \<Rightarrow> string \<Rightarrow> string" where
  "repr_point q [ch] = repr_char q ch"
| "repr_point q [lead, ch] =
     (if lead = CHR 0xC2 \<and> ((of_char ch :: nat) \<le> 160 \<or> ch = CHR 0xAD) then hex_escape (of_char ch)
      else [lead, ch])"
| "repr_point q point = point"

definition repr_str :: "string \<Rightarrow> string" where
  "repr_str s =
     (let q = (if CHR 0x27 \<in> set s \<and> CHR 0x22 \<notin> set s then CHR 0x22 else CHR 0x27)
      in [q] @ concat (map (repr_point q) (code_points s)) @ [q])"

fun py_repr :: "pyval \<Rightarrow> string" where
  "py_repr PNone = ''None''"
| "py_repr (PBool b) = (if b then ''True'' else ''False'')"
| "py_repr (PInt i) = show_int i"
| "py_repr (PStr s) = repr_str s"
| "py_repr (PList xs) = ''['' @ join_str '', '' (map py_repr xs) @ '']''"
| "py_repr (PDict kvs) =
     ''{'' @ join_str '', '' (map (\<lambda>kv. repr_str (fst kv) @ '': '' @ py_repr (snd kv)) kvs) @ ''}''"

text \<open>\<open>str(v)\<close>, which is what an f-string field \<open>{v}\<close> inserts.\<close>

fun py_str :: "pyval \<Rightarrow> string" where
  "py_str (PStr s) = s"
| "py_str v = py_repr v"

subsection \<open>Operations that can raise\<close>

definition exn_bind :: "exn + 'a \<Rightarrow> ('a \<Rightarrow> exn + 'b) \<Rightarrow> exn + 'b" where
  "exn_bind m f = (case m of Inl e \<Rightarrow> Inl e | Inr v \<Rightarrow> f v)"

fun map_exn :: "('a \<Rightarrow> exn + 'b) \<Rightarrow> 'a list \<Rightarrow> exn + 'b list" where
  "map_exn f [] = Inr []"
| "map_exn f (x # xs) =
     (case f x of
        Inl e \<Rightarrow> Inl e
      | Inr y \<Rightarrow> (case map_exn f xs of Inl e \<Rightarrow> Inl e | Inr ys \<Rightarrow> Inr (y # ys)))"

definition KeyError :: "string \<Rightarrow> exn" where
  "KeyError k = Exn ''KeyError'' (repr_str k)"

definition TypeError :: "string \<Rightarrow> exn" where
  "TypeError msg = Exn ''TypeError'' msg"

definition AttributeError :: "pyval \<Rightarrow> string \<Rightarrow> exn" where
  "AttributeError v attr =
     Exn ''AttributeError'' (squote @ type_name v @ squote @ '' object has no attribute '' @ squote @ attr @ squote)"

text \<open>\<open>d[k]\<close> and \<open>d.get(k, default)\<close> on a dictionary (the argument bag).\<close>

definition subscript :: "(string \<times> pyval) list \<Rightarrow> string \<Rightarrow> exn + pyval" where
  "subscript d k = (case map_of d k of None \<Rightarrow> Inl (KeyError k) | Some v \<Rightarrow> Inr v)"

definition dict_get :: "(string \<times> pyval) list \<Rightarrow> string \<Rightarrow> pyval \<Rightarrow> pyval" where
  "dict_get d k dflt = (case map_of d k of None \<Rightarrow> dflt | Some v \<Rightarrow> v)"

text \<open>\<open>v.get(k, default)\<close> on any value: only a dictionary has the method.\<close>

fun py_get :: "pyval \<Rightarrow> string \<Rightarrow> pyval \<Rightarrow> exn + pyval" where
  "py_get (PDict d) k dflt = Inr (dict_get d k dflt)"
| "py_get v k dflt = Inl (AttributeError v ''get'')"

text \<open>\<open>v.items()\<close>.\<close>

fun py_items :: "pyval \<Rightarrow> exn + (string \<times> pyval) list" where
  "py_items (PDict d) = Inr d"
| "py_items v = Inl (AttributeError v ''items'')"

text \<open>
  Iteration (\<open>for x in v\<close>): the elements of a list, the characters (code points) of a
  string, the keys of a dictionary; nothing else can be iterated.
\<close>

fun py_iter :: "pyval \<Rightarrow> exn + pyval list" where
  "py_iter (PList xs) = Inr xs"
| "py_iter (PStr s) = Inr (map PStr (code_points s))"
| "py_iter (PDict d) = Inr (map (\<lambda>kv. PStr (fst kv)) d)"
| "py_iter v = Inl (TypeError (squote @ type_name v @ squote @ '' object is not iterable''))"

text \<open>\<open>len(v)\<close>.\<close>

fun py_len :: "pyval \<Rightarrow> exn + nat" where
  "py_len (PList xs) = Inr (length xs)"
| "py_len (PStr s) = Inr (length (code_points s))"
| "py_len (PDict d) = Inr (length d)"
| "py_len v = Inl (TypeError (''object of type '' @ squote @ type_name v @ squote @ '' has no len()''))"

text \<open>
  \<open>sep.join(v)\<close>: \<open>v\<close> has to be iterable and every item a string. The list
  comprehensions of the formatters iterate first and hand \<open>join\<close> a list.
\<close>

fun join_items :: "nat \<Rightarrow> pyval list \<Rightarrow> exn + string list" where
  "join_items i [] = Inr []"
| "join_items i (PStr s # vs) =
     (case join_items (Suc i) vs of Inl e \<Rightarrow> Inl e | Inr ss \<Rightarrow> Inr (s # ss))"
| "join_items i (v # vs) =
     Inl (TypeError (''sequence item '' @ show_nat i @ '': expected str instance, '' @ type_name v @ '' found''))"

definition py_join :: "string \<Rightarrow> pyval \<Rightarrow> exn + string" where
  "py_join sep v =
     (case py_iter v of
        Inl e \<Rightarrow> Inl (TypeError ''can only join an iterable'')
      | Inr items \<Rightarrow> exn_bind (join_items 0 items) (\<lambda>ss. Inr (join_str sep ss)))"

fun contains :: "string \<Rightarrow> string \<Rightarrow> bool" where
  "contains pat [] = (pat = [])"
| "contains pat (ch # s) = (take (length pat) (ch # s) = pat \<or> contains pat s)"

text \<open>\<open>k in v\<close> for a string \<open>k\<close>.\<close>

fun py_in :: "string \<Rightarrow> pyval \<Rightarrow> exn + bool" where
  "py_in k (PDict d) = Inr (k \<in> set (map fst d))"
| "py_in k (PList xs) = Inr (PStr k \<in> set xs)"
| "py_in k (PStr s) = Inr (contains k s)"
| "py_in k v = Inl (TypeError (''argument of type '' @ squote @ type_name v @ squote @ '' is not iterable''))"

text \<open>\<open>v[k]\<close> for a string \<open>k\<close> on any value.\<close>

fun py_subscript :: "pyval \<Rightarrow> string \<Rightarrow> exn + pyval" where
  "py_subscript (PDict d) k = subscript d k"
| "py_subscript (PList xs) k = Inl (TypeError ''list indices must be integers or slices, not str'')"
| "py_subscript (PStr s) k = Inl (TypeError (''string indices must be integers, not '' @ squote @ ''str'' @ squote))"
| "py_subscript v k = Inl (TypeError (squote @ type_name v @ squote @ '' object is not subscriptable''))"

section \<open>The API client\<close>

subsection \<open>The remote service and the process's effects\<close>

text \<open>
  One HTTP request as \<open>_make_request\<close> hands it to the HTTP library: method, URL,
  headers, query parameters and JSON body (\<open>None\<close> when not given) and the timeout in
  seconds.
\<close>

record request =
  req_method :: string
  req_url :: string
  req_headers :: "(string \<times> string) list"
  req_params :: pyval
  req_json :: pyval
  req_timeout :: nat

text \<open>
  What comes back: the HTTP library raises (connection failure, timeout, a request it
  refuses to build), or there is a response with its status code, its text and the
  outcome of \<open>response.json()\<close>, which raises on a body that is not JSON.
\<close>

datatype http_outcome =
    Fault exn
  | Response int string "exn + pyval"

text \<open>
  The remote service and the transport are outside the program: any function from the
  requests issued so far and the present request to an outcome.
\<close>

type_synonym network = "request list \<Rightarrow> request \<Rightarrow> http_outcome"

text \<open>The effects of a call: the requests issued, in order, and the lines printed.\<close>

record world =
  sent :: "request list"
  printed :: "string list"

text \<open>A computation reads and changes the world and returns a value or raises.\<close>

type_synonym 'a io = "world \<Rightarrow> (exn + 'a) \<times> world"

definition io_return :: "'a \<Rightarrow> 'a io" where
  "io_return v w = (Inr v, w)"

definition io_lift :: "exn + 'a \<Rightarrow> 'a io" where
  "io_lift r w = (r, w)"

definition io_bind :: "'a io \<Rightarrow> ('a \<Rightarrow> 'b io) \<Rightarrow> 'b io" where
  "io_bind m f w = (case m w of (Inl e, w') \<Rightarrow> (Inl e, w') | (Inr v, w') \<Rightarrow> f v w')"

text \<open>\<open>try: m except Exception as e: h(e)\<close>.\<close>

definition io_try :: "'a io \<Rightarrow> (exn \<Rightarrow> 'a io) \<Rightarrow> 'a io" where
  "io_try m h w = (case m w of (Inl e, w') \<Rightarrow> h e w' | (Inr v, w') \<Rightarrow> (Inr v, w'))"

definition print :: "string \<Rightarrow> unit io" where
  "print line w = (Inr (), w\<lparr>printed := printed w @ [line]\<rparr>)"

text \<open>\<open>await client.request(...)\<close>: the request is issued, the network answers.\<close>

definition http_request :: "network \<Rightarrow> request \<Rightarrow> http_outcome io" where
  "http_request net req w = (Inr (net (sent w) req), w\<lparr>sent := sent w @ [req]\<rparr>)"

subsection \<open>\<open>PetstoreClient\<close>\<close>

text \<open>
  The client's fields. \<open>__init__\<close> reads \<open>base_url\<close> from the environment and sets
  \<open>timeout\<close> to 30 seconds.
\<close>

record PetstoreClient =
  base_url :: string
  timeout :: nat

definition build_request ::
  "PetstoreClient \<Rightarrow> string \<Rightarrow> string \<Rightarrow> pyval \<Rightarrow> pyval \<Rightarrow> pyval \<Rightarrow> request" where
  "build_request self method endpoint auth_token params json_data =
     \<lparr>req_method = method,
      req_url = base_url self @ ''/api/v3'' @ endpoint,
      req_headers = (if truthy auth_token then [(''Authorization'', ''Bearer '' @ py_str auth_token)] else []),
      req_params = params,
      req_json = json_data,
      req_timeout = timeout self\<rparr>"

text \<open>The body of the \<open>try\<close> block of \<open>_make_request\<close>.\<close>

definition make_request_try :: "network \<Rightarrow> request \<Rightarrow> pyval io" where
  "make_request_try net req =
     io_bind (http_request net req) (\<lambda>outcome.
       case outcome of
         Fault e \<Rightarrow> io_lift (Inl e)
       | Response status_code text_of_body json_of_body \<Rightarrow>
           if status_code = 200 \<or> status_code = 201 then io_lift json_of_body
           else if status_code = 404 then io_return PNone
           else io_bind (print (''API request failed: '' @ show_int status_code @ '' - '' @ text_of_body))
                  (\<lambda>_. io_return PNone))"

text \<open>\<open>_make_request\<close>.\<close>

definition make_request ::
  "PetstoreClient \<Rightarrow> network \<Rightarrow> string \<Rightarrow> string \<Rightarrow> pyval \<Rightarrow> pyval \<Rightarrow> pyval \<Rightarrow> pyval io" where
  "make_request self net method endpoint auth_token params json_data =
     io_try (make_request_try net (build_request self method endpoint auth_token params json_data))
       (\<lambda>e. io_bind (print (''Request error: '' @ exn_message e)) (\<lambda>_. io_return PNone))"

definition search_pets_by_status :: "PetstoreClient \<Rightarrow> network \<Rightarrow> pyval \<Rightarrow> pyval \<Rightarrow> pyval io" where
  "search_pets_by_status self net status auth_token =
     (if \<not> truthy auth_token then io_return (PList [])
      else io_bind (make_request self net ''GET'' ''/pet/findByStatus'' auth_token
                      (PDict [(''status'', status)]) PNone)
             (\<lambda>result. io_return (if truthy result then result else PList [])))"

definition search_pets_by_tags :: "PetstoreClient \<Rightarrow> network \<Rightarrow> pyval \<Rightarrow> pyval \<Rightarrow> pyval io" where
  "search_pets_by_tags self net tags auth_token =
     (if \<not> truthy auth_token then io_return (PList [])
      else io_bind (io_lift (py_join '','' tags)) (\<lambda>tags_param.
           io_bind (make_request self net ''GET'' ''/pet/findByTags'' auth_token
                      (PDict [(''tags'', PStr tags_param)]) PNone)
             (\<lambda>result. io_return (if truthy result then result else PList []))))"

definition get_pet_by_id :: "PetstoreClient \<Rightarrow> network \<Rightarrow> pyval \<Rightarrow> pyval \<Rightarrow> pyval io" where
  "get_pet_by_id self net pet_id auth_token =
     (if \<not> truthy auth_token then io_return PNone
      else make_request self net ''GET'' (''/pet/'' @ py_str pet_id) auth_token PNone PNone)"

definition get_store_inventory :: "PetstoreClient \<Rightarrow> network \<Rightarrow> pyval \<Rightarrow> pyval io" where
  "get_store_inventory self net auth_token =
     make_request self net ''GET'' ''/store/inventory'' auth_token PNone PNone"

definition get_order_by_id :: "PetstoreClient \<Rightarrow> network \<Rightarrow> pyval \<Rightarrow> pyval \<Rightarrow> pyval io" where
  "get_order_by_id self net order_id auth_token =
     make_request self net ''GET'' (''/store/order/'' @ py_str order_id) auth_token PNone PNone"

text \<open>The dictionary \<open>place_order\<close> sends as the JSON body.\<close>

definition order_data :: "pyval \<Rightarrow> pyval \<Rightarrow> (string \<times> pyval) list" where
  "order_data pet_id ship_date =
     [(''petId'', pet_id), (''quantity'', PInt 1), (''status'', PStr ''placed''), (''complete'', PBool False)]
     @ (if truthy ship_date then [(''shipDate'', ship_date)] else [])"

definition place_order :: "PetstoreClient \<Rightarrow> network \<Rightarrow> pyval \<Rightarrow> pyval \<Rightarrow> pyval \<Rightarrow> pyval io" where
  "place_order self net pet_id auth_token ship_date =
     make_request self net ''POST'' ''/store/order'' auth_token PNone (PDict (order_data pet_id ship_date))"

definition login_user :: "PetstoreClient \<Rightarrow> network \<Rightarrow> pyval \<Rightarrow> pyval \<Rightarrow> pyval io" where
  "login_user self net username password =
     make_request self net ''GET'' ''/user/login'' PNone
       (PDict [(''username'', username), (''password'', password)]) PNone"

definition get_user_profile :: "PetstoreClient \<Rightarrow> network \<Rightarrow> pyval \<Rightarrow> pyval \<Rightarrow> pyval io" where
  "get_user_profile self net username auth_token =
     make_request self net ''GET'' (''/user/'' @ py_str username) auth_token PNone PNone"

definition create_user :: "PetstoreClient \<Rightarrow> network \<Rightarrow> pyval \<Rightarrow> pyval io" where
  "create_user self net user_data =
     make_request self net ''POST'' ''/user'' PNone PNone user_data"

definition add_pet :: "PetstoreClient \<Rightarrow> network \<Rightarrow> pyval \<Rightarrow> pyval \<Rightarrow> pyval io" where
  "add_pet self net pet_data auth_token =
     make_request self net ''POST'' ''/pet'' auth_token PNone pet_data"

subsection \<open>The formatters\<close>

text \<open>
  The list separator the source writes is \<open>"\\n"\<close>: a backslash and the letter n, two
  characters. The triple-quoted blocks of the detail formatters hold real line breaks.
\<close>

definition backslash_n :: string where
  "backslash_n = backslash @ ''n''"

text \<open>The three characters in front of every entry of a pet list, as the source file has them (UTF-8).\<close>

definition bullet :: string where
  "bullet = [CHR 0xC3, CHR 0xA2, CHR 0xE2, CHR 0x82, CHR 0xAC, CHR 0xC2, CHR 0xA2]"

text \<open>\<open>s or d\<close> on strings.\<close>

definition str_or :: "string \<Rightarrow> string \<Rightarrow> string" where
  "str_or s d = (if s \<noteq> [] then s else d)"

text \<open>
  \<open>pet.get("category", {}).get("name", "Unknown") if pet.get("category") else "Unknown"\<close>
\<close>

definition pet_category :: "pyval \<Rightarrow> exn + pyval" where
  "pet_category pet =
     exn_bind (py_get pet ''category'' PNone) (\<lambda>cond.
       if truthy cond
       then exn_bind (py_get pet ''category'' (PDict [])) (\<lambda>category. py_get category ''name'' (PStr ''Unknown''))
       else Inr (PStr ''Unknown''))"

text \<open>\<open>", ".join([tag.get("name", "") for tag in pet.get("tags", [])])\<close>\<close>

definition pet_tags :: "pyval \<Rightarrow> exn + string" where
  "pet_tags pet =
     exn_bind (py_get pet ''tags'' (PList [])) (\<lambda>tags.
     exn_bind (py_iter tags) (\<lambda>items.
     exn_bind (map_exn (\<lambda>tag. py_get tag ''name'' (PStr [])) items) (\<lambda>names.
     exn_bind (join_items 0 names) (\<lambda>ss.
     Inr (join_str '', '' ss)))))"

text \<open>The body of the loop of \<open>format_pets_list\<close>: the entry of one pet.\<close>

definition pet_entry :: "pyval \<Rightarrow> exn + string" where
  "pet_entry pet =
     exn_bind (pet_category pet) (\<lambda>category.
     exn_bind (pet_tags pet) (\<lambda>tags.
     exn_bind (py_get pet ''name'' (PStr ''Unnamed'')) (\<lambda>name.
     exn_bind (py_get pet ''id'' PNone) (\<lambda>ident.
     exn_bind (py_get pet ''status'' PNone) (\<lambda>status.
     Inr (bullet @ '' '' @ py_str name @ '' (ID: '' @ py_str ident @ '') - '' @ py_str category
          @ '' - Status: '' @ py_str status @ '' - Tags: '' @ str_or tags ''None''))))))"

definition format_pets_list :: "pyval \<Rightarrow> exn + string" where
  "format_pets_list pets =
     (if \<not> truthy pets then Inr ''No pets found.''
      else exn_bind (py_iter pets) (\<lambda>items.
           exn_bind (map_exn pet_entry items) (\<lambda>formatted.
           Inr (join_str backslash_n formatted))))"

definition format_pet_details :: "pyval \<Rightarrow> exn + string" where
  "format_pet_details pet =
     exn_bind (pet_category pet) (\<lambda>category.
     exn_bind (pet_tags pet) (\<lambda>tags.
     exn_bind (py_get pet ''photoUrls'' (PList [])) (\<lambda>urls.
     exn_bind (py_join '', '' urls) (\<lambda>photos.
     exn_bind (py_get pet ''name'' (PStr ''Unnamed'')) (\<lambda>name.
     exn_bind (py_get pet ''id'' PNone) (\<lambda>ident.
     exn_bind (py_get pet ''status'' PNone) (\<lambda>status.
     Inr (''Name: '' @ py_str name @ newline
          @ ''ID: '' @ py_str ident @ newline
          @ ''Category: '' @ py_str category @ newline
          @ ''Status: '' @ py_str status @ newline
          @ ''Tags: '' @ str_or tags ''None'' @ newline
          @ ''Photos: '' @ str_or photos ''None''))))))))"

definition format_order_details :: "pyval \<Rightarrow> exn + string" where
  "format_order_details order =
     exn_bind (py_get order ''id'' PNone) (\<lambda>ident.
     exn_bind (py_get order ''petId'' PNone) (\<lambda>pet_id.
     exn_bind (py_get order ''quantity'' PNone) (\<lambda>quantity.
     exn_bind (py_get order ''status'' PNone) (\<lambda>status.
     exn_bind (py_get order ''shipDate'' (PStr ''Not set'')) (\<lambda>ship_date.
     exn_bind (py_get order ''complete'' (PBool False)) (\<lambda>complete.
     Inr (''Order ID: '' @ py_str ident @ newline
          @ ''Pet ID: '' @ py_str pet_id @ newline
          @ ''Quantity: '' @ py_str quantity @ newline
          @ ''Status: '' @ py_str status @ newline
          @ ''Ship Date: '' @ py_str ship_date @ newline
          @ ''Complete: '' @ py_str complete)))))))"

definition format_user_details :: "pyval \<Rightarrow> exn + string" where
  "format_user_details user =
     exn_bind (py_get user ''username'' PNone) (\<lambda>username.
     exn_bind (py_get user ''firstName'' (PStr [])) (\<lambda>first_name.
     exn_bind (py_get user ''lastName'' (PStr [])) (\<lambda>last_name.
     exn_bind (py_get user ''email'' (PStr ''Not provided'')) (\<lambda>email.
     exn_bind (py_get user ''phone'' (PStr ''Not provided'')) (\<lambda>phone.
     exn_bind (py_get user ''role'' (PStr ''customer'')) (\<lambda>role.
     exn_bind (py_get user ''userStatus'' (PInt 1)) (\<lambda>user_status.
     Inr (''Username: '' @ py_str username @ newline
          @ ''Name: '' @ py_str first_name @ '' '' @ py_str last_name @ newline
          @ ''Email: '' @ py_str email @ newline
          @ ''Phone: '' @ py_str phone @ newline
          @ ''Role: '' @ py_str role @ newline
          @ ''Status: '' @ py_str user_status))))))))"

section \<open>The server\<close>

subsection \<open>The tool catalog\<close>

datatype Tool = Tool (tool_name: string) (tool_description: string) (inputSchema: pyval)

text \<open>The shapes every \<open>inputSchema\<close> of \<open>list_tools\<close> is written in.\<close>

definition object_schema :: "(string \<times> pyval) list \<Rightarrow> string list \<Rightarrow> pyval" where
  "object_schema props req =
     PDict [(''type'', PStr ''object''), (''properties'', PDict props), (''required'', PList (map PStr req))]"

definition string_prop :: "string \<Rightarrow> pyval" where
  "string_prop d = PDict [(''type'', PStr ''string''), (''description'', PStr d)]"

definition integer_prop :: "string \<Rightarrow> pyval" where
  "integer_prop d = PDict [(''type'', PStr ''integer''), (''description'', PStr d)]"

definition string_array_prop :: "string \<Rightarrow> pyval" where
  "string_array_prop d =
     PDict [(''type'', PStr ''array''), (''items'', PDict [(''type'', PStr ''string'')]), (''description'', PStr d)]"

definition status_enum :: pyval where
  "status_enum = PList [PStr ''available'', PStr ''pending'', PStr ''sold'']"

definition list_tools :: "Tool list" where
  "list_tools =
   [Tool ''search_pets_by_status''
      ''Search for pets by their availability status (available, pending, sold)''
      (object_schema
         [(''status'', PDict [(''type'', PStr ''string''), (''enum'', status_enum),
                              (''description'', PStr ''Pet status to search for'')])]
         [''status'']),
    Tool ''search_pets_by_tags''
      ''Search for pets by tag names''
      (object_schema
         [(''tags'', string_array_prop ''Array of tag names to search for'')]
         [''tags'']),
    Tool ''get_pet_by_id''
      ''Get detailed information about a specific pet''
      (object_schema
         [(''pet_id'', integer_prop ''ID of the pet to retrieve'')]
         [''pet_id'']),
    Tool ''get_store_inventory''
      ''Get inventory counts by pet status (requires store_owner or admin role)''
      (object_schema
         [(''auth_token'', string_prop ''JWT authentication token'')]
         [''auth_token'']),
    Tool ''get_order_by_id''
      ''Get details of a specific order''
      (object_schema
         [(''order_id'', integer_prop ''ID of the order to retrieve''),
          (''auth_token'', string_prop ''JWT authentication token'')]
         [''order_id'', ''auth_token'']),
    Tool ''place_order''
      ''Place a new order for a pet''
      (object_schema
         [(''pet_id'', integer_prop ''ID of the pet to order''),
          (''ship_date'', PDict [(''type'', PStr ''string''),
                                 (''description'', PStr ''Shipping date in ISO format''),
                                 (''format'', PStr ''date-time'')]),
          (''auth_token'', string_prop ''JWT authentication token'')]
         [''pet_id'', ''auth_token'']),
    Tool ''login_user''
      ''Log in a user and get authentication token''
      (object_schema
         [(''username'', string_prop ''Username''),
          (''password'', string_prop ''Password'')]
         [''username'', ''password'']),
    Tool ''get_user_profile''
      ''Get user profile information''
      (object_schema
         [(''username'', string_prop ''Username to retrieve''),
          (''auth_token'', string_prop ''JWT authentication token'')]
         [''username'', ''auth_token'']),
    Tool ''create_user''
      ''Create a new user account''
      (object_schema
         [(''username'', string_prop ''Username for the new account''),
          (''password'', string_prop ''Password for the new account''),
          (''email'', string_prop ''Email address''),
          (''first_name'', string_prop ''First name''),
          (''last_name'', string_prop ''Last name''),
          (''phone'', string_prop ''Phone number'')]
         [''username'', ''password'']),
    Tool ''add_pet''
      ''Add a new pet to the store (requires store_owner or admin role)''
      (object_schema
         [(''name'', string_prop ''Pet name''),
          (''category_name'', string_prop ''Category name (e.g., Dogs, Cats)''),
          (''status'', PDict [(''type'', PStr ''string''), (''enum'', status_enum),
                              (''description'', PStr ''Pet status''), (''default'', PStr ''available'')]),
          (''photo_urls'', string_array_prop ''Array of photo URLs''),
          (''tag_names'', string_array_prop ''Array of tag names''),
          (''auth_token'', string_prop ''JWT authentication token'')]
         [''name'', ''auth_token''])]"

text \<open>The names of the catalog, and the argument names a tool's schema declares.\<close>

definition tool_names :: "string list" where
  "tool_names = map tool_name list_tools"

definition schema_properties :: "pyval \<Rightarrow> string list" where
  "schema_properties schema =
     (case schema of
        PDict d \<Rightarrow> (case dict_get d ''properties'' (PDict []) of PDict props \<Rightarrow> map fst props | _ \<Rightarrow> [])
      | _ \<Rightarrow> [])"

definition tool_arguments :: "string \<Rightarrow> string list" where
  "tool_arguments n = concat (map (\<lambda>t. schema_properties (inputSchema t)) (filter (\<lambda>t. tool_name t = n) list_tools))"

subsection \<open>The dispatcher\<close>

datatype TextContent = TextContent (content_type: string) (content_text: string)

text \<open>One branch of \<open>call_tool\<close> for each tool, in the order of the source.\<close>

definition call_search_pets_by_status ::
  "PetstoreClient \<Rightarrow> network \<Rightarrow> (string \<times> pyval) list \<Rightarrow> TextContent list io" where
  "call_search_pets_by_status api_client net arguments =
     io_bind (io_lift (subscript arguments ''status'')) (\<lambda>status.
     io_bind (search_pets_by_status api_client net status PNone) (\<lambda>result.
     io_lift (
       exn_bind (py_len result) (\<lambda>n.
       exn_bind (subscript arguments ''status'') (\<lambda>status'.
       exn_bind (format_pets_list result) (\<lambda>listing.
       Inr [TextContent ''text''
              (''Found '' @ show_nat n @ '' pets with status '' @ squote @ py_str status' @ squote
               @ '':'' @ backslash_n @ listing)]))))))"

definition call_search_pets_by_tags ::
  "PetstoreClient \<Rightarrow> network \<Rightarrow> (string \<times> pyval) list \<Rightarrow> TextContent list io" where
  "call_search_pets_by_tags api_client net arguments =
     io_bind (io_lift (subscript arguments ''tags'')) (\<lambda>tags.
     io_bind (search_pets_by_tags api_client net tags PNone) (\<lambda>result.
     io_lift (
       exn_bind (py_len result) (\<lambda>n.
       exn_bind (format_pets_list result) (\<lambda>listing.
       Inr [TextContent ''text''
              (''Found '' @ show_nat n @ '' pets with tags '' @ py_str tags
               @ '':'' @ backslash_n @ listing)])))))"

definition call_get_pet_by_id ::
  "PetstoreClient \<Rightarrow> network \<Rightarrow> (string \<times> pyval) list \<Rightarrow> TextContent list io" where
  "call_get_pet_by_id api_client net arguments =
     io_bind (io_lift (subscript arguments ''pet_id'')) (\<lambda>pet_id.
     io_bind (get_pet_by_id api_client net pet_id PNone) (\<lambda>result.
     if truthy result
     then io_lift (exn_bind (format_pet_details result) (\<lambda>details.
            Inr [TextContent ''text'' (''Pet Details:'' @ backslash_n @ details)]))
     else io_return [TextContent ''text'' ''Pet not found'']))"

definition call_get_store_inventory ::
  "PetstoreClient \<Rightarrow> network \<Rightarrow> (string \<times> pyval) list \<Rightarrow> TextContent list io" where
  "call_get_store_inventory api_client net arguments =
     io_bind (io_lift (subscript arguments ''auth_token'')) (\<lambda>auth_token.
     io_bind (get_store_inventory api_client net auth_token) (\<lambda>result.
     if truthy result
     then io_lift (exn_bind (py_items result) (\<lambda>items.
            Inr [TextContent ''text''
                   (''Store Inventory:'' @ backslash_n
                    @ join_str backslash_n (map (\<lambda>kv. fst kv @ '': '' @ py_str (snd kv) @ '' pets'') items))]))
     else io_return [TextContent ''text'' ''Failed to retrieve inventory'']))"

definition call_get_order_by_id ::
  "PetstoreClient \<Rightarrow> network \<Rightarrow> (string \<times> pyval) list \<Rightarrow> TextContent list io" where
  "call_get_order_by_id api_client net arguments =
     io_bind (io_lift (subscript arguments ''order_id'')) (\<lambda>order_id.
     io_bind (io_lift (subscript arguments ''auth_token'')) (\<lambda>auth_token.
     io_bind (get_order_by_id api_client net order_id auth_token) (\<lambda>result.
     if truthy result
     then io_lift (exn_bind (format_order_details result) (\<lambda>details.
            Inr [TextContent ''text'' (''Order Details:'' @ backslash_n @ details)]))
     else io_return [TextContent ''text'' ''Order not found or access denied''])))"

definition call_place_order ::
  "PetstoreClient \<Rightarrow> network \<Rightarrow> (string \<times> pyval) list \<Rightarrow> TextContent list io" where
  "call_place_order api_client net arguments =
     io_bind (io_lift (subscript arguments ''pet_id'')) (\<lambda>pet_id.
     io_bind (io_return (dict_get arguments ''ship_date'' PNone)) (\<lambda>ship_date.
     io_bind (io_lift (subscript arguments ''auth_token'')) (\<lambda>auth_token.
     io_bind (place_order api_client net pet_id auth_token ship_date) (\<lambda>result.
     if truthy result
     then io_lift (exn_bind (format_order_details result) (\<lambda>details.
            Inr [TextContent ''text'' (''Order placed successfully:'' @ backslash_n @ details)]))
     else io_return [TextContent ''text'' ''Failed to place order'']))))"

definition call_login_user ::
  "PetstoreClient \<Rightarrow> network \<Rightarrow> (string \<times> pyval) list \<Rightarrow> TextContent list io" where
  "call_login_user api_client net arguments =
     io_bind (io_lift (subscript arguments ''username'')) (\<lambda>username.
     io_bind (io_lift (subscript arguments ''password'')) (\<lambda>password.
     io_bind (login_user api_client net username password) (\<lambda>result.
     io_bind (io_lift (if truthy result then py_in ''token'' result else Inr False)) (\<lambda>has_token.
     if has_token
     then io_lift (exn_bind (py_subscript result ''token'') (\<lambda>token.
            Inr [TextContent ''text'' (''Login successful! Token: '' @ py_str token)]))
     else io_return [TextContent ''text'' ''Login failed - invalid credentials'']))))"

definition call_get_user_profile ::
  "PetstoreClient \<Rightarrow> network \<Rightarrow> (string \<times> pyval) list \<Rightarrow> TextContent list io" where
  "call_get_user_profile api_client net arguments =
     io_bind (io_lift (subscript arguments ''username'')) (\<lambda>username.
     io_bind (io_lift (subscript arguments ''auth_token'')) (\<lambda>auth_token.
     io_bind (get_user_profile api_client net username auth_token) (\<lambda>result.
     if truthy result
     then io_lift (exn_bind (format_user_details result) (\<lambda>details.
            Inr [TextContent ''text'' (''User Profile:'' @ backslash_n @ details)]))
     else io_return [TextContent ''text'' ''User not found or access denied''])))"

text \<open>The dictionary the \<open>create_user\<close> branch builds from the argument bag.\<close>

definition user_data :: "(string \<times> pyval) list \<Rightarrow> exn + pyval" where
  "user_data arguments =
     exn_bind (subscript arguments ''username'') (\<lambda>username.
     exn_bind (subscript arguments ''password'') (\<lambda>password.
     Inr (PDict [(''username'', username),
                 (''password'', password),
                 (''email'', dict_get arguments ''email'' PNone),
                 (''firstName'', dict_get arguments ''first_name'' PNone),
                 (''lastName'', dict_get arguments ''last_name'' PNone),
                 (''phone'', dict_get arguments ''phone'' PNone)])))"

definition call_create_user ::
  "PetstoreClient \<Rightarrow> network \<Rightarrow> (string \<times> pyval) list \<Rightarrow> TextContent list io" where
  "call_create_user api_client net arguments =
     io_bind (io_lift (user_data arguments)) (\<lambda>data.
     io_bind (create_user api_client net data) (\<lambda>result.
     if truthy result
     then io_lift (exn_bind (format_user_details result) (\<lambda>details.
            Inr [TextContent ''text'' (''User created successfully:'' @ backslash_n @ details)]))
     else io_return [TextContent ''text'' ''Failed to create user'']))"

text \<open>The dictionary the \<open>add_pet\<close> branch builds from the argument bag.\<close>

definition pet_data :: "(string \<times> pyval) list \<Rightarrow> exn + pyval" where
  "pet_data arguments =
     exn_bind (subscript arguments ''name'') (\<lambda>name.
     exn_bind (py_iter (dict_get arguments ''tag_names'' (PList []))) (\<lambda>tag_names.
     Inr (PDict [(''name'', name),
                 (''category'', PDict [(''name'', dict_get arguments ''category_name'' (PStr ''Uncategorized''))]),
                 (''status'', dict_get arguments ''status'' (PStr ''available'')),
                 (''photoUrls'', dict_get arguments ''photo_urls'' (PList [])),
                 (''tags'', PList (map (\<lambda>tag. PDict [(''name'', tag)]) tag_names))])))"

definition call_add_pet ::
  "PetstoreClient \<Rightarrow> network \<Rightarrow> (string \<times> pyval) list \<Rightarrow> TextContent list io" where
  "call_add_pet api_client net arguments =
     io_bind (io_lift (pet_data arguments)) (\<lambda>data.
     io_bind (io_lift (subscript arguments ''auth_token'')) (\<lambda>auth_token.
     io_bind (add_pet api_client net data auth_token) (\<lambda>result.
     if truthy result
     then io_lift (exn_bind (format_pet_details result) (\<lambda>details.
            Inr [TextContent ''text'' (''Pet added successfully:'' @ backslash_n @ details)]))
     else io_return [TextContent ''text'' ''Failed to add pet''])))"

text \<open>The body of the \<open>try\<close> block of \<open>call_tool\<close>.\<close>

definition call_tool_try ::
  "PetstoreClient \<Rightarrow> network \<Rightarrow> string \<Rightarrow> (string \<times> pyval) list \<Rightarrow> TextContent list io" where
  "call_tool_try api_client net name arguments =
     (if name = ''search_pets_by_status'' then call_search_pets_by_status api_client net arguments
      else if name = ''search_pets_by_tags'' then call_search_pets_by_tags api_client net arguments
      else if name = ''get_pet_by_id'' then call_get_pet_by_id api_client net arguments
      else if name = ''get_store_inventory'' then call_get_store_inventory api_client net arguments
      else if name = ''get_order_by_id'' then call_get_order_by_id api_client net arguments
      else if name = ''place_order'' then call_place_order api_client net arguments
      else if name = ''login_user'' then call_login_user api_client net arguments
      else if name = ''get_user_profile'' then call_get_user_profile api_client net arguments
      else if name = ''create_user'' then call_create_user api_client net arguments
      else if name = ''add_pet'' then call_add_pet api_client net arguments
      else io_return [TextContent ''text'' (''Unknown tool: '' @ name)])"

text \<open>\<open>call_tool\<close>: the branches under the handler of \<open>except Exception\<close>.\<close>

definition call_tool ::
  "PetstoreClient \<Rightarrow> network \<Rightarrow> string \<Rightarrow> (string \<times> pyval) list \<Rightarrow> TextContent list io" where
  "call_tool api_client net name arguments =
     io_try (call_tool_try api_client net name arguments)
       (\<lambda>e. io_return [TextContent ''text'' (''Error: '' @ exn_message e)])"

section \<open>Example deployments\<close>

text \<open>
  A client configured as \<open>__init__\<close> does with no environment variable set, a process
  that has done nothing yet, and a remote service that gives the same answer to everything.
\<close>

definition local_client :: PetstoreClient where
  "local_client = \<lparr>base_url = ''http://localhost:3002'', timeout = 30\<rparr>"

definition idle :: world where
  "idle = \<lparr>sent = [], printed = []\<rparr>"

definition always :: "http_outcome \<Rightarrow> network" where
  "always outcome history req = outcome"

text \<open>
  A service that stores what it is sent and answers with it, one that has a pet for every
  query, and one that knows no pet.
\<close>

definition echo :: network where
  "echo history req = Response 201 [] (Inr (req_json req))"

definition stocked :: network where
  "stocked = always (Response 200 [] (Inr (PList [PDict [(''id'', PInt 1), (''name'', PStr ''Rex'')]])))"

definition not_found :: network where
  "not_found = always (Response 404 ''Pet not found'' (Inl (Exn ''JSONDecodeError'' ''Expecting value'')))"

text \<open>
  A list of two pets as the service returns them: one with a category and two tags, one
  with neither.
\<close>

definition two_pets :: pyval where
  "two_pets =
     PList [PDict [(''id'', PInt 1), (''name'', PStr ''Rex''),
                   (''category'', PDict [(''id'', PInt 1), (''name'', PStr ''Dogs'')]),
                   (''status'', PStr ''available''),
                   (''tags'', PList [PDict [(''id'', PInt 1), (''name'', PStr ''friendly'')],
                                     PDict [(''id'', PInt 2), (''name'', PStr ''small'')]])],
            PDict [(''id'', PInt 2), (''name'', PStr ''Tom''), (''status'', PStr ''sold'')]]"

section \<open>Properties of the request primitive\<close>

lemmas io_defs = io_return_def io_lift_def io_bind_def io_try_def print_def http_request_def

lemma make_request_sent:
  "sent (snd (make_request self net method endpoint auth_token params json_data w))
     = sent w @ [build_request self method endpoint auth_token params json_data]"
  by (simp add: make_request_def make_request_try_def io_defs
           split: http_outcome.splits sum.splits prod.splits)

lemma make_request_result:
  "fst (make_request self net method endpoint auth_token params json_data w) =
     (case net (sent w) (build_request self method endpoint auth_token params json_data) of
        Fault e \<Rightarrow> Inr PNone
      | Response sc body js \<Rightarrow>
          if sc = 200 \<or> sc = 201 then (case js of Inl e \<Rightarrow> Inr PNone | Inr v \<Rightarrow> Inr v) else Inr PNone)"
  by (simp add: make_request_def make_request_try_def io_defs
           split: http_outcome.splits sum.splits prod.splits)

text \<open>
  C2. Whatever the method, endpoint, token, parameters and body: \<open>_make_request\<close> returns
  the parsed JSON body when the status is 200 or 201, \<open>None\<close> when it is 404, \<open>None\<close> for
  every other status, \<open>None\<close> when the body of a 200 or 201 is not JSON, \<open>None\<close> when the
  HTTP library raises, and in every case it returns a value: no exception leaves it.
\<close>

theorem make_request_outcomes:
  "(net (sent w) (build_request self method endpoint auth_token params json_data) = Response sc body (Inr v)
      \<and> (sc = 200 \<or> sc = 201)
      \<longrightarrow> fst (make_request self net method endpoint auth_token params json_data w) = Inr v)
   \<and> (net (sent w) (build_request self method endpoint auth_token params json_data) = Response 404 body js
      \<longrightarrow> fst (make_request self net method endpoint auth_token params json_data w) = Inr PNone)
   \<and> (net (sent w) (build_request self method endpoint auth_token params json_data) = Response sc body js
      \<and> sc \<noteq> 200 \<and> sc \<noteq> 201
      \<longrightarrow> fst (make_request self net method endpoint auth_token params json_data w) = Inr PNone)
   \<and> (net (sent w) (build_request self method endpoint auth_token params json_data) = Response sc body (Inl e)
      \<longrightarrow> fst (make_request self net method endpoint auth_token params json_data w) = Inr PNone)
   \<and> (net (sent w) (build_request self method endpoint auth_token params json_data) = Fault e
      \<longrightarrow> fst (make_request self net method endpoint auth_token params json_data w) = Inr PNone)
   \<and> (\<exists>r. fst (make_request self net method endpoint auth_token params json_data w) = Inr r)"
  by (simp add: make_request_result split: http_outcome.splits sum.splits)

theorem make_request_outcomes_witness:
  "fst (make_request local_client (always (Response 201 ''created'' (Inr (PDict [(''id'', PInt 7)]))))
          ''POST'' ''/pet'' (PStr ''tok'') PNone (PDict [(''name'', PStr ''Rex'')]) idle)
     = Inr (PDict [(''id'', PInt 7)])
   \<and> fst (make_request local_client (always (Response 404 ''Pet not found'' (Inl (Exn ''JSONDecodeError'' ''Expecting value''))))
          ''GET'' ''/pet/7'' (PStr ''tok'') PNone PNone idle)
     = Inr PNone
   \<and> fst (make_request local_client (always (Response 500 ''oops'' (Inr (PDict [(''message'', PStr ''oops'')]))))
          ''GET'' ''/pet/7'' (PStr ''tok'') PNone PNone idle)
     = Inr PNone
   \<and> fst (make_request local_client (always (Response 200 ''<html>'' (Inl (Exn ''JSONDecodeError'' ''Expecting value''))))
          ''GET'' ''/pet/7'' (PStr ''tok'') PNone PNone idle)
     = Inr PNone
   \<and> fst (make_request local_client (always (Fault (Exn ''ConnectError'' ''All connection attempts failed'')))
          ''GET'' ''/pet/7'' (PStr ''tok'') PNone PNone idle)
     = Inr PNone"
proof -
  have created: "always (Response 201 ''created'' (Inr (PDict [(''id'', PInt 7)]))) (sent idle)
            (build_request local_client ''POST'' ''/pet'' (PStr ''tok'') PNone (PDict [(''name'', PStr ''Rex'')]))
          = Response 201 ''created'' (Inr (PDict [(''id'', PInt 7)])) \<and> ((201::int) = 200 \<or> (201::int) = 201)"
    by (simp add: always_def)
  have missing: "always (Response 404 ''Pet not found'' (Inl (Exn ''JSONDecodeError'' ''Expecting value''))) (sent idle)
            (build_request local_client ''GET'' ''/pet/7'' (PStr ''tok'') PNone PNone)
          = Response 404 ''Pet not found'' (Inl (Exn ''JSONDecodeError'' ''Expecting value''))"
    by (simp add: always_def)
  have failed: "always (Response 500 ''oops'' (Inr (PDict [(''message'', PStr ''oops'')]))) (sent idle)
            (build_request local_client ''GET'' ''/pet/7'' (PStr ''tok'') PNone PNone)
          = Response 500 ''oops'' (Inr (PDict [(''message'', PStr ''oops'')])) \<and> (500::int) \<noteq> 200 \<and> (500::int) \<noteq> 201"
    by (simp add: always_def)
  have malformed: "always (Response 200 ''<html>'' (Inl (Exn ''JSONDecodeError'' ''Expecting value''))) (sent idle)
            (build_request local_client ''GET'' ''/pet/7'' (PStr ''tok'') PNone PNone)
          = Response 200 ''<html>'' (Inl (Exn ''JSONDecodeError'' ''Expecting value''))"
    by (simp add: always_def)
  have down: "always (Fault (Exn ''ConnectError'' ''All connection attempts failed'')) (sent idle)
            (build_request local_client ''GET'' ''/pet/7'' (PStr ''tok'') PNone PNone)
          = Fault (Exn ''ConnectError'' ''All connection attempts failed'')"
    by (simp add: always_def)
  have r1: "fst (make_request local_client (always (Response 201 ''created'' (Inr (PDict [(''id'', PInt 7)]))))
          ''POST'' ''/pet'' (PStr ''tok'') PNone (PDict [(''name'', PStr ''Rex'')]) idle)
     = Inr (PDict [(''id'', PInt 7)])"
    using created
          make_request_outcomes [of "always (Response 201 ''created'' (Inr (PDict [(''id'', PInt 7)])))" idle local_client
            "''POST''" "''/pet''" "PStr ''tok''" PNone "PDict [(''name'', PStr ''Rex'')]"
            201 "''created''" "PDict [(''id'', PInt 7)]"]
    by simp
  have r2: "fst (make_request local_client (always (Response 404 ''Pet not found'' (Inl (Exn ''JSONDecodeError'' ''Expecting value''))))
          ''GET'' ''/pet/7'' (PStr ''tok'') PNone PNone idle)
     = Inr PNone"
    using missing
          make_request_outcomes [of "always (Response 404 ''Pet not found'' (Inl (Exn ''JSONDecodeError'' ''Expecting value'')))" idle local_client
            "''GET''" "''/pet/7''" "PStr ''tok''" PNone PNone _ "''Pet not found''" _ "Inl (Exn ''JSONDecodeError'' ''Expecting value'')"]
    by simp
  have r3: "fst (make_request local_client (always (Response 500 ''oops'' (Inr (PDict [(''message'', PStr ''oops'')]))))
          ''GET'' ''/pet/7'' (PStr ''tok'') PNone PNone idle)
     = Inr PNone"
    using failed
          make_request_outcomes [of "always (Response 500 ''oops'' (Inr (PDict [(''message'', PStr ''oops'')])))" idle local_client
            "''GET''" "''/pet/7''" "PStr ''tok''" PNone PNone
            500 "''oops''" _ "Inr (PDict [(''message'', PStr ''oops'')])"]
    by simp
  have r4: "fst (make_request local_client (always (Response 200 ''<html>'' (Inl (Exn ''JSONDecodeError'' ''Expecting value''))))
          ''GET'' ''/pet/7'' (PStr ''tok'') PNone PNone idle)
     = Inr PNone"
    using malformed
          make_request_outcomes [of "always (Response 200 ''<html>'' (Inl (Exn ''JSONDecodeError'' ''Expecting value'')))" idle local_client
            "''GET''" "''/pet/7''" "PStr ''tok''" PNone PNone 200 "''<html>''" _ _ "Exn ''JSONDecodeError'' ''Expecting value''"]
    by simp
  have r5: "fst (make_request local_client (always (Fault (Exn ''ConnectError'' ''All connection attempts failed'')))
          ''GET'' ''/pet/7'' (PStr ''tok'') PNone PNone idle)
     = Inr PNone"
    using down
          make_request_outcomes [of "always (Fault (Exn ''ConnectError'' ''All connection attempts failed''))" idle local_client
            "''GET''" "''/pet/7''" "PStr ''tok''" PNone PNone _ _ _ _ "Exn ''ConnectError'' ''All connection attempts failed''"]
    by simp
  from r1 r2 r3 r4 r5 show ?thesis by (intro conjI)
qed

section \<open>Properties of the dispatcher\<close>

lemma show_nat_0: "show_nat 0 = ''0''"
  by (simp add: show_nat.simps digit_char_def)

lemma tool_names_catalog:
  "tool_names = [''search_pets_by_status'', ''search_pets_by_tags'', ''get_pet_by_id'',
                 ''get_store_inventory'', ''get_order_by_id'', ''place_order'', ''login_user'',
                 ''get_user_profile'', ''create_user'', ''add_pet'']"
  by (simp add: tool_names_def list_tools_def)

text \<open>
  C10. A name that is not in the catalog is answered with the text \<open>Unknown tool: <name>\<close>,
  and the world is as before: no request is issued, nothing is printed.
\<close>

theorem unknown_tool:
  "name \<notin> set tool_names \<Longrightarrow>
     call_tool api_client net name arguments w = (Inr [TextContent ''text'' (''Unknown tool: '' @ name)], w)"
  by (simp add: tool_names_catalog call_tool_def call_tool_try_def io_try_def io_return_def)

theorem unknown_tool_witness:
  "''nonexistent_tool'' \<notin> set tool_names
   \<and> call_tool local_client (always (Fault (Exn ''ConnectError'' ''unreachable''))) ''nonexistent_tool''
        [(''pet_id'', PInt 7)] idle
     = (Inr [TextContent ''text'' ''Unknown tool: nonexistent_tool''], idle)"
proof -
  have h: "''nonexistent_tool'' \<notin> set tool_names"
    by (simp add: tool_names_catalog)
  from h unknown_tool [OF h] show ?thesis by simp
qed

text \<open>The shape of a successful step.\<close>

lemma io_bind_Inr:
  "io_bind m f w = (Inr r, w') \<Longrightarrow> \<exists>v w1. m w = (Inr v, w1) \<and> f v w1 = (Inr r, w')"
  by (auto simp: io_bind_def split: prod.splits sum.splits)

lemma io_lift_Inr: "io_lift x w = (Inr r, w') \<Longrightarrow> x = Inr r"
  by (simp add: io_lift_def)

lemma io_return_Inr: "io_return x w = (Inr r, w') \<Longrightarrow> r = x"
  by (simp add: io_return_def)

lemma exn_bind_Inr: "exn_bind m f = Inr r \<Longrightarrow> \<exists>v. m = Inr v \<and> f v = Inr r"
  by (auto simp: exn_bind_def split: sum.splits)

lemmas step_Inr = io_bind_Inr io_lift_Inr io_return_Inr exn_bind_Inr

lemma call_search_pets_by_status_text:
  "call_search_pets_by_status api_client net arguments w = (Inr r, w') \<Longrightarrow> \<exists>t. r = [TextContent ''text'' t]"
  unfolding call_search_pets_by_status_def
  by (fastforce dest!: step_Inr)

lemma call_search_pets_by_tags_text:
  "call_search_pets_by_tags api_client net arguments w = (Inr r, w') \<Longrightarrow> \<exists>t. r = [TextContent ''text'' t]"
  unfolding call_search_pets_by_tags_def
  by (fastforce dest!: step_Inr)

lemma call_get_pet_by_id_text:
  "call_get_pet_by_id api_client net arguments w = (Inr r, w') \<Longrightarrow> \<exists>t. r = [TextContent ''text'' t]"
  unfolding call_get_pet_by_id_def
  by (fastforce dest!: step_Inr split: if_splits)

lemma call_get_store_inventory_text:
  "call_get_store_inventory api_client net arguments w = (Inr r, w') \<Longrightarrow> \<exists>t. r = [TextContent ''text'' t]"
  unfolding call_get_store_inventory_def
  by (fastforce dest!: step_Inr split: if_splits)

lemma call_get_order_by_id_text:
  "call_get_order_by_id api_client net arguments w = (Inr r, w') \<Longrightarrow> \<exists>t. r = [TextContent ''text'' t]"
  unfolding call_get_order_by_id_def
  by (fastforce dest!: step_Inr split: if_splits)

lemma call_place_order_text:
  "call_place_order api_client net arguments w = (Inr r, w') \<Longrightarrow> \<exists>t. r = [TextContent ''text'' t]"
  unfolding call_place_order_def
  by (fastforce dest!: step_Inr split: if_splits)

lemma call_login_user_text:
  "call_login_user api_client net arguments w = (Inr r, w') \<Longrightarrow> \<exists>t. r = [TextContent ''text'' t]"
  unfolding call_login_user_def
  by (fastforce dest!: step_Inr split: if_splits)

lemma call_get_user_profile_text:
  "call_get_user_profile api_client net arguments w = (Inr r, w') \<Longrightarrow> \<exists>t. r = [TextContent ''text'' t]"
  unfolding call_get_user_profile_def
  by (fastforce dest!: step_Inr split: if_splits)

lemma call_create_user_text:
  "call_create_user api_client net arguments w = (Inr r, w') \<Longrightarrow> \<exists>t. r = [TextContent ''text'' t]"
  unfolding call_create_user_def
  by (fastforce dest!: step_Inr split: if_splits)

lemma call_add_pet_text:
  "call_add_pet api_client net arguments w = (Inr r, w') \<Longrightarrow> \<exists>t. r = [TextContent ''text'' t]"
  unfolding call_add_pet_def
  by (fastforce dest!: step_Inr split: if_splits)

lemmas branch_text =
  call_search_pets_by_status_text call_search_pets_by_tags_text call_get_pet_by_id_text
  call_get_store_inventory_text call_get_order_by_id_text call_place_order_text
  call_login_user_text call_get_user_profile_text call_create_user_text call_add_pet_text

lemma call_tool_try_text:
  "call_tool_try api_client net name arguments w = (Inr r, w') \<Longrightarrow> \<exists>t. r = [TextContent ''text'' t]"
  unfolding call_tool_try_def
  by (auto split: if_splits dest: branch_text io_return_Inr)

text \<open>
  C1. For every tool name and argument bag \<open>call_tool\<close> returns one \<open>TextContent\<close> of
  type text and raises nothing; when extracting the arguments, reshaping them, calling the
  client or formatting its result raises \<open>e\<close>, that text is \<open>Error: \<close> followed by \<open>str(e)\<close>.
\<close>

theorem call_tool_one_text:
  "(\<exists>t w'. call_tool api_client net name arguments w = (Inr [TextContent ''text'' t], w'))
   \<and> (call_tool_try api_client net name arguments w = (Inl e, w1)
        \<longrightarrow> call_tool api_client net name arguments w
              = (Inr [TextContent ''text'' (''Error: '' @ exn_message e)], w1))"
proof (intro conjI impI)
  show "\<exists>t w'. call_tool api_client net name arguments w = (Inr [TextContent ''text'' t], w')"
  proof (cases "call_tool_try api_client net name arguments w")
    case (Pair res w2)
    show ?thesis
    proof (cases res)
      case (Inl e)
      with Pair show ?thesis
        by (simp add: call_tool_def io_try_def io_return_def)
    next
      case (Inr r)
      with Pair call_tool_try_text obtain t where "r = [TextContent ''text'' t]"
        by blast
      with Pair Inr show ?thesis
        by (simp add: call_tool_def io_try_def)
    qed
  qed
next
  assume "call_tool_try api_client net name arguments w = (Inl e, w1)"
  then show "call_tool api_client net name arguments w
              = (Inr [TextContent ''text'' (''Error: '' @ exn_message e)], w1)"
    by (simp add: call_tool_def io_try_def io_return_def)
qed


lemma exn_message_KeyError: "exn_message (KeyError k) = repr_str k"
  by (simp add: KeyError_def)

theorem call_tool_one_text_witness:
  "call_tool_try local_client (always (Response 404 [] (Inr PNone))) ''search_pets_by_status'' [] idle
     = (Inl (KeyError ''status''), idle)
   \<and> call_tool local_client (always (Response 404 [] (Inr PNone))) ''search_pets_by_status'' [] idle
     = (Inr [TextContent ''text'' (''Error: '' @ squote @ ''status'' @ squote)], idle)"
proof -
  have raised: "call_tool_try local_client (always (Response 404 [] (Inr PNone))) ''search_pets_by_status'' [] idle
     = (Inl (KeyError ''status''), idle)"
    by (simp add: call_tool_try_def call_search_pets_by_status_def io_bind_def io_lift_def subscript_def)
  have msg: "exn_message (KeyError ''status'') = squote @ ''status'' @ squote"
    by (simp add: exn_message_KeyError repr_str_def repr_char_def squote_def Let_def)
  from raised msg
       call_tool_one_text [of local_client "always (Response 404 [] (Inr PNone))" "''search_pets_by_status''" "[]" idle
                              "KeyError ''status''" idle]
  show ?thesis by simp
qed

section \<open>Anonymous pet lookups\<close>

text \<open>
  C5. With no token, \<open>search_pets_by_status\<close> (for every status) and \<open>search_pets_by_tags\<close>
  (for every tag list) return the empty list and leave the world as it is, and the empty list
  is rendered \<open>No pets found.\<close>
\<close>

theorem anonymous_search_is_empty:
  "search_pets_by_status self net status PNone w = (Inr (PList []), w)
   \<and> search_pets_by_tags self net tags PNone w = (Inr (PList []), w)
   \<and> format_pets_list (PList []) = Inr ''No pets found.''"
  by (simp add: search_pets_by_status_def search_pets_by_tags_def io_return_def format_pets_list_def)

theorem anonymous_search_is_empty_witness:
  "search_pets_by_status local_client (always (Response 200 [] (Inr (PList [PDict [(''id'', PInt 1)]]))))
       (PStr ''available'') PNone idle = (Inr (PList []), idle)
   \<and> search_pets_by_tags local_client (always (Response 200 [] (Inr (PList [PDict [(''id'', PInt 1)]]))))
       (PList [PStr ''friendly'', PStr ''small'']) PNone idle = (Inr (PList []), idle)
   \<and> format_pets_list (PList []) = Inr ''No pets found.''"
  using anonymous_search_is_empty [of local_client "always (Response 200 [] (Inr (PList [PDict [(''id'', PInt 1)]])))"
          "PStr ''available''" idle "PList [PStr ''friendly'', PStr ''small'']"]
  by simp


lemma tool_arguments_search_pets_by_status: "tool_arguments ''search_pets_by_status'' = [''status'']"
  by (simp add: tool_arguments_def list_tools_def schema_properties_def object_schema_def dict_get_def)

lemma tool_arguments_search_pets_by_tags: "tool_arguments ''search_pets_by_tags'' = [''tags'']"
  by (simp add: tool_arguments_def list_tools_def schema_properties_def object_schema_def dict_get_def)

lemma tool_arguments_get_pet_by_id: "tool_arguments ''get_pet_by_id'' = [''pet_id'']"
  by (simp add: tool_arguments_def list_tools_def schema_properties_def object_schema_def dict_get_def)

lemma dispatch_search_pets_by_status:
  "call_tool api_client net ''search_pets_by_status'' arguments w =
     (case map_of arguments ''status'' of
        None \<Rightarrow> (Inr [TextContent ''text'' (''Error: '' @ repr_str ''status'')], w)
      | Some status \<Rightarrow>
          (Inr [TextContent ''text'' (''Found 0 pets with status '' @ squote @ py_str status @ squote
                  @ '':'' @ backslash_n @ ''No pets found.'')], w))"
  by (simp add: call_tool_def call_tool_try_def call_search_pets_by_status_def
        search_pets_by_status_def format_pets_list_def subscript_def show_nat_0 exn_message_KeyError
        io_try_def io_bind_def io_lift_def io_return_def exn_bind_def
      split: option.splits)

lemma dispatch_search_pets_by_tags:
  "call_tool api_client net ''search_pets_by_tags'' arguments w =
     (case map_of arguments ''tags'' of
        None \<Rightarrow> (Inr [TextContent ''text'' (''Error: '' @ repr_str ''tags'')], w)
      | Some tags \<Rightarrow>
          (Inr [TextContent ''text'' (''Found 0 pets with tags '' @ py_str tags
                  @ '':'' @ backslash_n @ ''No pets found.'')], w))"
  by (simp add: call_tool_def call_tool_try_def call_search_pets_by_tags_def
        search_pets_by_tags_def format_pets_list_def subscript_def show_nat_0 exn_message_KeyError
        io_try_def io_bind_def io_lift_def io_return_def exn_bind_def
      split: option.splits)

lemma dispatch_get_pet_by_id:
  "call_tool api_client net ''get_pet_by_id'' arguments w =
     (case map_of arguments ''pet_id'' of
        None \<Rightarrow> (Inr [TextContent ''text'' (''Error: '' @ repr_str ''pet_id'')], w)
      | Some pet_id \<Rightarrow> (Inr [TextContent ''text'' ''Pet not found''], w))"
  by (simp add: call_tool_def call_tool_try_def call_get_pet_by_id_def
        get_pet_by_id_def subscript_def exn_message_KeyError
        io_try_def io_bind_def io_lift_def io_return_def
      split: option.splits)

text \<open>
  C3, amended. The schemas of \<open>search_pets_by_status\<close>, \<open>search_pets_by_tags\<close> and
  \<open>get_pet_by_id\<close> declare no \<open>auth_token\<close>, and for every argument bag a dispatch of one
  of them leaves the world as it is: no request is issued. When the bag holds the tool's
  required argument, the two searches answer with the rendering of the empty list and
  \<open>get_pet_by_id\<close> answers \<open>Pet not found\<close>.
\<close>

theorem pet_lookups_never_reach_service:
  "''auth_token'' \<notin> set (tool_arguments ''search_pets_by_status'')
   \<and> ''auth_token'' \<notin> set (tool_arguments ''search_pets_by_tags'')
   \<and> ''auth_token'' \<notin> set (tool_arguments ''get_pet_by_id'')
   \<and> snd (call_tool api_client net ''search_pets_by_status'' arguments w) = w
   \<and> snd (call_tool api_client net ''search_pets_by_tags'' arguments w) = w
   \<and> snd (call_tool api_client net ''get_pet_by_id'' arguments w) = w
   \<and> (map_of arguments ''status'' = Some status \<longrightarrow>
        fst (call_tool api_client net ''search_pets_by_status'' arguments w)
          = Inr [TextContent ''text'' (''Found 0 pets with status '' @ squote @ py_str status @ squote
                   @ '':'' @ backslash_n @ ''No pets found.'')])
   \<and> (map_of arguments ''tags'' = Some tags \<longrightarrow>
        fst (call_tool api_client net ''search_pets_by_tags'' arguments w)
          = Inr [TextContent ''text'' (''Found 0 pets with tags '' @ py_str tags
                   @ '':'' @ backslash_n @ ''No pets found.'')])
   \<and> (map_of arguments ''pet_id'' = Some pet_id \<longrightarrow>
        fst (call_tool api_client net ''get_pet_by_id'' arguments w)
          = Inr [TextContent ''text'' ''Pet not found''])"
  by (simp add: tool_arguments_search_pets_by_status tool_arguments_search_pets_by_tags
        tool_arguments_get_pet_by_id dispatch_search_pets_by_status dispatch_search_pets_by_tags
        dispatch_get_pet_by_id split: option.splits)

lemma repr_str_friendly: "repr_str ''friendly'' = squote @ ''friendly'' @ squote"
  by (simp add: repr_str_def repr_char_def squote_def Let_def)

theorem pet_lookups_never_reach_service_witness:
  "call_tool local_client stocked ''search_pets_by_status'' [(''status'', PStr ''available'')] idle
     = (Inr [TextContent ''text'' (''Found 0 pets with status '' @ squote @ ''available'' @ squote
              @ '':'' @ backslash_n @ ''No pets found.'')], idle)
   \<and> call_tool local_client stocked ''search_pets_by_tags'' [(''tags'', PList [PStr ''friendly''])] idle
     = (Inr [TextContent ''text'' (''Found 0 pets with tags ['' @ squote @ ''friendly'' @ squote @ '']''
              @ '':'' @ backslash_n @ ''No pets found.'')], idle)
   \<and> call_tool local_client stocked ''get_pet_by_id'' [(''pet_id'', PInt 1)] idle
     = (Inr [TextContent ''text'' ''Pet not found''], idle)"
proof -
  have s: "map_of [(''status'', PStr ''available'')] ''status'' = Some (PStr ''available'')"
    by simp
  have t: "map_of [(''tags'', PList [PStr ''friendly''])] ''tags'' = Some (PList [PStr ''friendly''])"
    by simp
  have p: "map_of [(''pet_id'', PInt 1)] ''pet_id'' = Some (PInt 1)"
    by simp
  have r1: "call_tool local_client stocked ''search_pets_by_status'' [(''status'', PStr ''available'')] idle
     = (Inr [TextContent ''text'' (''Found 0 pets with status '' @ squote @ ''available'' @ squote
              @ '':'' @ backslash_n @ ''No pets found.'')], idle)"
    using s pet_lookups_never_reach_service
            [of local_client stocked "[(''status'', PStr ''available'')]" idle "PStr ''available''"]
    by (simp add: prod_eq_iff)
  have r2: "call_tool local_client stocked ''search_pets_by_tags'' [(''tags'', PList [PStr ''friendly''])] idle
     = (Inr [TextContent ''text'' (''Found 0 pets with tags ['' @ squote @ ''friendly'' @ squote @ '']''
              @ '':'' @ backslash_n @ ''No pets found.'')], idle)"
    using t pet_lookups_never_reach_service
            [of local_client stocked "[(''tags'', PList [PStr ''friendly''])]" idle _ "PList [PStr ''friendly'']"]
    by (simp add: prod_eq_iff repr_str_friendly)
  have r3: "call_tool local_client stocked ''get_pet_by_id'' [(''pet_id'', PInt 1)] idle
     = (Inr [TextContent ''text'' ''Pet not found''], idle)"
    using p pet_lookups_never_reach_service
            [of local_client stocked "[(''pet_id'', PInt 1)]" idle _ _ "PInt 1"]
    by (simp add: prod_eq_iff)
  from r1 r2 r3 show ?thesis by (intro conjI)
qed

text \<open>
  A bag without the required argument is answered with the text of the \<open>KeyError\<close>, which
  is neither the rendering of the empty list nor \<open>Pet not found\<close>.
\<close>

theorem empty_bag_is_an_error:
  "fst (call_tool local_client stocked ''search_pets_by_status'' [] idle)
     = Inr [TextContent ''text'' (''Error: '' @ squote @ ''status'' @ squote)]
   \<and> fst (call_tool local_client stocked ''get_pet_by_id'' [] idle)
     \<noteq> Inr [TextContent ''text'' ''Pet not found'']"
  by (simp add: dispatch_search_pets_by_status dispatch_get_pet_by_id repr_str_def repr_char_def
        squote_def Let_def)


lemma get_pet_by_id_404:
  "net (sent w) (build_request self ''GET'' (''/pet/'' @ py_str pet_id) auth_token PNone PNone)
     = Response 404 body js
   \<Longrightarrow> fst (get_pet_by_id self net pet_id auth_token w) = Inr PNone"
  by (simp add: get_pet_by_id_def io_return_def make_request_result)

text \<open>
  C4, amended. A \<open>get_pet_by_id\<close> call that names a pet is answered with exactly the text
  \<open>Pet not found\<close>, without a full stop, whatever the service would say; and the client
  method, given any token, returns \<open>None\<close> when the service answers 404, which is the value
  the dispatcher renders with that text.
\<close>

theorem get_pet_by_id_not_found:
  "(map_of arguments ''pet_id'' = Some pet_id \<longrightarrow>
      call_tool api_client net ''get_pet_by_id'' arguments w
        = (Inr [TextContent ''text'' ''Pet not found''], w))
   \<and> (net (sent w) (build_request api_client ''GET'' (''/pet/'' @ py_str pet_id) auth_token PNone PNone)
         = Response 404 body js
      \<longrightarrow> fst (get_pet_by_id api_client net pet_id auth_token w) = Inr PNone)"
  by (simp add: dispatch_get_pet_by_id get_pet_by_id_404)

theorem get_pet_by_id_not_found_witness:
  "call_tool local_client not_found ''get_pet_by_id'' [(''pet_id'', PInt 7)] idle
     = (Inr [TextContent ''text'' ''Pet not found''], idle)
   \<and> fst (get_pet_by_id local_client not_found (PInt 7) (PStr ''tok'') idle) = Inr PNone"
proof -
  have p: "map_of [(''pet_id'', PInt 7)] ''pet_id'' = Some (PInt 7)"
    by simp
  have n: "not_found (sent idle) (build_request local_client ''GET'' (''/pet/'' @ py_str (PInt 7)) (PStr ''tok'') PNone PNone)
             = Response 404 ''Pet not found'' (Inl (Exn ''JSONDecodeError'' ''Expecting value''))"
    by (simp add: not_found_def always_def)
  from p n get_pet_by_id_not_found
         [of "[(''pet_id'', PInt 7)]" "PInt 7" local_client not_found idle "PStr ''tok''"
             "''Pet not found''" "Inl (Exn ''JSONDecodeError'' ''Expecting value'')"]
  show ?thesis by simp
qed

text \<open>The text with a full stop at its end is not what the call returns.\<close>

theorem get_pet_by_id_text_has_no_period:
  "fst (call_tool local_client not_found ''get_pet_by_id'' [(''pet_id'', PInt 7)] idle)
     \<noteq> Inr [TextContent ''text'' ''Pet not found.'']"
  by (simp add: dispatch_get_pet_by_id)

section \<open>Properties of the request bodies\<close>

lemma place_order_sent:
  "sent (snd (place_order self net pet_id auth_token ship_date w))
     = sent w @ [build_request self ''POST'' ''/store/order'' auth_token PNone (PDict (order_data pet_id ship_date))]"
  by (simp add: place_order_def make_request_sent)

lemma io_bind_lift_Inr: "io_bind (io_lift (Inr v)) f w = f v w"
  by (simp add: io_bind_def io_lift_def)

lemma io_bind_return: "io_bind (io_return v) f w = f v w"
  by (simp add: io_bind_def io_return_def)

lemma snd_io_bind_pure:
  "snd (io_bind m (\<lambda>v. if c v then io_lift (g v) else io_return (h v)) w) = snd (m w)"
  by (simp add: io_bind_def io_lift_def io_return_def split: prod.splits sum.splits)

lemma snd_io_try_return: "snd (io_try m (\<lambda>e. io_return (h e)) w) = snd (m w)"
  by (simp add: io_try_def io_return_def split: prod.splits sum.splits)

lemma dispatch_place_order_sent:
  "map_of arguments ''pet_id'' = Some pet_id \<Longrightarrow> map_of arguments ''auth_token'' = Some auth_token \<Longrightarrow>
   sent (snd (call_tool api_client net ''place_order'' arguments w))
     = sent w @ [build_request api_client ''POST'' ''/store/order'' auth_token PNone
                   (PDict (order_data pet_id (dict_get arguments ''ship_date'' PNone)))]"
  by (simp add: call_tool_def call_tool_try_def call_place_order_def subscript_def
        snd_io_try_return io_bind_lift_Inr io_bind_return snd_io_bind_pure place_order_sent)

text \<open>
  C6, amended. For every pet id and token \<open>place_order\<close> issues one POST to
  \<open>/store/order\<close> whose body holds exactly \<open>petId\<close>, \<open>quantity\<close> 1, \<open>status\<close> placed and
  \<open>complete\<close> False when no ship date is given (or the one given is empty), with no
  \<open>shipDate\<close> key at all, and holds the ship date verbatim under \<open>shipDate\<close> as a fifth entry
  when a non-empty one is given. The same holds of a \<open>place_order\<close> call through the
  dispatcher with \<open>pet_id\<close> and \<open>auth_token\<close> in the bag.
\<close>

theorem place_order_body:
  "(\<exists>req. sent (snd (place_order self net pet_id auth_token ship_date w)) = sent w @ [req]
      \<and> req_method req = ''POST''
      \<and> req_url req = base_url self @ ''/api/v3/store/order''
      \<and> (ship_date = PNone \<longrightarrow>
            req_json req = PDict [(''petId'', pet_id), (''quantity'', PInt 1),
                                  (''status'', PStr ''placed''), (''complete'', PBool False)])
      \<and> (truthy ship_date \<longrightarrow>
            req_json req = PDict [(''petId'', pet_id), (''quantity'', PInt 1),
                                  (''status'', PStr ''placed''), (''complete'', PBool False),
                                  (''shipDate'', ship_date)])
      \<and> (\<not> truthy ship_date \<longrightarrow>
            req_json req = PDict [(''petId'', pet_id), (''quantity'', PInt 1),
                                  (''status'', PStr ''placed''), (''complete'', PBool False)]))
   \<and> (map_of arguments ''pet_id'' = Some pet_id \<and> map_of arguments ''auth_token'' = Some auth_token
        \<and> map_of arguments ''ship_date'' = None \<longrightarrow>
        (\<exists>req. sent (snd (call_tool self net ''place_order'' arguments w)) = sent w @ [req]
           \<and> req_json req = PDict [(''petId'', pet_id), (''quantity'', PInt 1),
                                    (''status'', PStr ''placed''), (''complete'', PBool False)]))
   \<and> (map_of arguments ''pet_id'' = Some pet_id \<and> map_of arguments ''auth_token'' = Some auth_token
        \<and> map_of arguments ''ship_date'' = Some ship_date \<and> truthy ship_date \<longrightarrow>
        (\<exists>req. sent (snd (call_tool self net ''place_order'' arguments w)) = sent w @ [req]
           \<and> req_json req = PDict [(''petId'', pet_id), (''quantity'', PInt 1),
                                    (''status'', PStr ''placed''), (''complete'', PBool False),
                                    (''shipDate'', ship_date)]))"
proof (intro conjI impI)
  show "\<exists>req. sent (snd (place_order self net pet_id auth_token ship_date w)) = sent w @ [req]
      \<and> req_method req = ''POST''
      \<and> req_url req = base_url self @ ''/api/v3/store/order''
      \<and> (ship_date = PNone \<longrightarrow>
            req_json req = PDict [(''petId'', pet_id), (''quantity'', PInt 1),
                                  (''status'', PStr ''placed''), (''complete'', PBool False)])
      \<and> (truthy ship_date \<longrightarrow>
            req_json req = PDict [(''petId'', pet_id), (''quantity'', PInt 1),
                                  (''status'', PStr ''placed''), (''complete'', PBool False),
                                  (''shipDate'', ship_date)])
      \<and> (\<not> truthy ship_date \<longrightarrow>
            req_json req = PDict [(''petId'', pet_id), (''quantity'', PInt 1),
                                  (''status'', PStr ''placed''), (''complete'', PBool False)])"
    by (simp add: place_order_sent build_request_def order_data_def)
next
  assume "map_of arguments ''pet_id'' = Some pet_id \<and> map_of arguments ''auth_token'' = Some auth_token
        \<and> map_of arguments ''ship_date'' = None"
  then show "\<exists>req. sent (snd (call_tool self net ''place_order'' arguments w)) = sent w @ [req]
           \<and> req_json req = PDict [(''petId'', pet_id), (''quantity'', PInt 1),
                                    (''status'', PStr ''placed''), (''complete'', PBool False)]"
    by (simp add: dispatch_place_order_sent build_request_def order_data_def dict_get_def)
next
  assume "map_of arguments ''pet_id'' = Some pet_id \<and> map_of arguments ''auth_token'' = Some auth_token
        \<and> map_of arguments ''ship_date'' = Some ship_date \<and> truthy ship_date"
  then show "\<exists>req. sent (snd (call_tool self net ''place_order'' arguments w)) = sent w @ [req]
           \<and> req_json req = PDict [(''petId'', pet_id), (''quantity'', PInt 1),
                                    (''status'', PStr ''placed''), (''complete'', PBool False),
                                    (''shipDate'', ship_date)]"
    by (simp add: dispatch_place_order_sent build_request_def order_data_def dict_get_def)
qed


theorem place_order_body_witness:
  "(\<exists>req. sent (snd (place_order local_client echo (PInt 7) (PStr ''tok'') PNone idle)) = sent idle @ [req]
      \<and> req_json req = PDict [(''petId'', PInt 7), (''quantity'', PInt 1),
                               (''status'', PStr ''placed''), (''complete'', PBool False)])
   \<and> (\<exists>req. sent (snd (place_order local_client echo (PInt 7) (PStr ''tok'') (PStr ''2025-01-01T00:00:00Z'') idle))
               = sent idle @ [req]
      \<and> req_json req = PDict [(''petId'', PInt 7), (''quantity'', PInt 1),
                               (''status'', PStr ''placed''), (''complete'', PBool False),
                               (''shipDate'', PStr ''2025-01-01T00:00:00Z'')])
   \<and> (\<exists>req. sent (snd (call_tool local_client echo ''place_order''
                          [(''pet_id'', PInt 7), (''auth_token'', PStr ''tok'')] idle)) = sent idle @ [req]
      \<and> req_json req = PDict [(''petId'', PInt 7), (''quantity'', PInt 1),
                               (''status'', PStr ''placed''), (''complete'', PBool False)])
   \<and> (\<exists>req. sent (snd (call_tool local_client echo ''place_order''
                          [(''pet_id'', PInt 7), (''ship_date'', PStr ''2025-01-01T00:00:00Z''),
                           (''auth_token'', PStr ''tok'')] idle)) = sent idle @ [req]
      \<and> req_json req = PDict [(''petId'', PInt 7), (''quantity'', PInt 1),
                               (''status'', PStr ''placed''), (''complete'', PBool False),
                               (''shipDate'', PStr ''2025-01-01T00:00:00Z'')])"
proof (intro conjI)
  show "\<exists>req. sent (snd (place_order local_client echo (PInt 7) (PStr ''tok'') PNone idle)) = sent idle @ [req]
      \<and> req_json req = PDict [(''petId'', PInt 7), (''quantity'', PInt 1),
                               (''status'', PStr ''placed''), (''complete'', PBool False)]"
    using place_order_body [of local_client echo "PInt 7" "PStr ''tok''" PNone idle "[]"]
    by auto
next
  have given: "truthy (PStr ''2025-01-01T00:00:00Z'')"
    by simp
  then show "\<exists>req. sent (snd (place_order local_client echo (PInt 7) (PStr ''tok'') (PStr ''2025-01-01T00:00:00Z'') idle))
               = sent idle @ [req]
      \<and> req_json req = PDict [(''petId'', PInt 7), (''quantity'', PInt 1),
                               (''status'', PStr ''placed''), (''complete'', PBool False),
                               (''shipDate'', PStr ''2025-01-01T00:00:00Z'')]"
    using place_order_body [of local_client echo "PInt 7" "PStr ''tok''" "PStr ''2025-01-01T00:00:00Z''" idle "[]"]
    by auto
next
  have bag: "map_of [(''pet_id'', PInt 7), (''auth_token'', PStr ''tok'')] ''pet_id'' = Some (PInt 7)
      \<and> map_of [(''pet_id'', PInt 7), (''auth_token'', PStr ''tok'')] ''auth_token'' = Some (PStr ''tok'')
      \<and> map_of [(''pet_id'', PInt 7), (''auth_token'', PStr ''tok'')] ''ship_date'' = None"
    by simp
  then show "\<exists>req. sent (snd (call_tool local_client echo ''place_order''
                          [(''pet_id'', PInt 7), (''auth_token'', PStr ''tok'')] idle)) = sent idle @ [req]
      \<and> req_json req = PDict [(''petId'', PInt 7), (''quantity'', PInt 1),
                               (''status'', PStr ''placed''), (''complete'', PBool False)]"
    using place_order_body [of local_client echo "PInt 7" "PStr ''tok''" PNone idle
                               "[(''pet_id'', PInt 7), (''auth_token'', PStr ''tok'')]"]
    by blast
next
  have bag: "map_of [(''pet_id'', PInt 7), (''ship_date'', PStr ''2025-01-01T00:00:00Z''), (''auth_token'', PStr ''tok'')]
               ''pet_id'' = Some (PInt 7)
      \<and> map_of [(''pet_id'', PInt 7), (''ship_date'', PStr ''2025-01-01T00:00:00Z''), (''auth_token'', PStr ''tok'')]
               ''auth_token'' = Some (PStr ''tok'')
      \<and> map_of [(''pet_id'', PInt 7), (''ship_date'', PStr ''2025-01-01T00:00:00Z''), (''auth_token'', PStr ''tok'')]
               ''ship_date'' = Some (PStr ''2025-01-01T00:00:00Z'')
      \<and> truthy (PStr ''2025-01-01T00:00:00Z'')"
    by simp
  then show "\<exists>req. sent (snd (call_tool local_client echo ''place_order''
                          [(''pet_id'', PInt 7), (''ship_date'', PStr ''2025-01-01T00:00:00Z''),
                           (''auth_token'', PStr ''tok'')] idle)) = sent idle @ [req]
      \<and> req_json req = PDict [(''petId'', PInt 7), (''quantity'', PInt 1),
                               (''status'', PStr ''placed''), (''complete'', PBool False),
                               (''shipDate'', PStr ''2025-01-01T00:00:00Z'')]"
    using place_order_body [of local_client echo "PInt 7" "PStr ''tok''" "PStr ''2025-01-01T00:00:00Z''" idle
                               "[(''pet_id'', PInt 7), (''ship_date'', PStr ''2025-01-01T00:00:00Z''),
                                 (''auth_token'', PStr ''tok'')]"]
    by blast
qed

text \<open>
  A ship date that is given as the empty string is not in the body: \<open>if ship_date:\<close> tests
  its truth value, not whether it was given.
\<close>

theorem empty_ship_date_is_dropped:
  "sent (snd (place_order local_client echo (PInt 7) (PStr ''tok'') (PStr []) idle))
     = [build_request local_client ''POST'' ''/store/order'' (PStr ''tok'') PNone
          (PDict [(''petId'', PInt 7), (''quantity'', PInt 1),
                  (''status'', PStr ''placed''), (''complete'', PBool False)])]
   \<and> req_json (last (sent (snd (place_order local_client echo (PInt 7) (PStr ''tok'') (PStr []) idle))))
     \<noteq> PDict [(''petId'', PInt 7), (''quantity'', PInt 1),
              (''status'', PStr ''placed''), (''complete'', PBool False), (''shipDate'', PStr [])]
   \<and> sent (snd (call_tool local_client echo ''place_order''
                  [(''pet_id'', PInt 7), (''ship_date'', PStr []), (''auth_token'', PStr ''tok'')] idle))
     = [build_request local_client ''POST'' ''/store/order'' (PStr ''tok'') PNone
          (PDict [(''petId'', PInt 7), (''quantity'', PInt 1),
                  (''status'', PStr ''placed''), (''complete'', PBool False)])]"
  by (simp add: place_order_sent dispatch_place_order_sent order_data_def idle_def build_request_def dict_get_def)


lemma tag_names_round_trip:
  "map_exn (\<lambda>tag. py_get tag ''name'' (PStr [])) (map (\<lambda>tag. PDict [(''name'', tag)]) ts) = Inr ts"
  by (induction ts) (simp_all add: dict_get_def)

lemma dispatch_add_pet_sent:
  "pet_data arguments = Inr body \<Longrightarrow> map_of arguments ''auth_token'' = Some auth_token \<Longrightarrow>
   sent (snd (call_tool api_client net ''add_pet'' arguments w))
     = sent w @ [build_request api_client ''POST'' ''/pet'' auth_token PNone body]"
  by (simp add: call_tool_def call_tool_try_def call_add_pet_def subscript_def add_pet_def
        snd_io_try_return io_bind_lift_Inr snd_io_bind_pure make_request_sent)

lemma pet_data_built:
  "map_of arguments ''name'' = Some nm \<Longrightarrow>
   py_iter (dict_get arguments ''tag_names'' (PList [])) = Inr ts \<Longrightarrow>
   pet_data arguments =
     Inr (PDict [(''name'', nm),
                 (''category'', PDict [(''name'', dict_get arguments ''category_name'' (PStr ''Uncategorized''))]),
                 (''status'', dict_get arguments ''status'' (PStr ''available'')),
                 (''photoUrls'', dict_get arguments ''photo_urls'' (PList [])),
                 (''tags'', PList (map (\<lambda>tag. PDict [(''name'', tag)]) ts))])"
  by (simp add: pet_data_def subscript_def exn_bind_def)

lemma format_pet_details_of_body:
  "format_pet_details
     (PDict [(''name'', nm), (''category'', PDict [(''name'', category)]), (''status'', status),
             (''photoUrls'', photos), (''tags'', PList (map (\<lambda>tag. PDict [(''name'', tag)]) ts))]) = Inr rendering
   \<Longrightarrow> \<exists>tags_text photos_text.
         rendering = ''Name: '' @ py_str nm @ newline @ ''ID: None'' @ newline
                @ ''Category: '' @ py_str category @ newline
                @ ''Status: '' @ py_str status @ newline
                @ ''Tags: '' @ tags_text @ newline @ ''Photos: '' @ photos_text
         \<and> (ts = [] \<longrightarrow> tags_text = ''None'')"
  by (auto simp: format_pet_details_def pet_category_def pet_tags_def dict_get_def exn_bind_def
        tag_names_round_trip str_or_def
      split: sum.splits)

text \<open>
  C7, amended. For every argument bag with a \<open>name\<close> whose \<open>tag_names\<close> is missing or can be
  iterated, the \<open>add_pet\<close> branch builds the body
  \<open>{name, category: {name}, status, photoUrls, tags: [{name}, ...]}\<close>: the category name is
  \<open>Uncategorized\<close>, the status \<open>available\<close>, the photo URLs the empty list when the
  argument is missing and the argument otherwise, and there is one tag for each item of
  \<open>tag_names\<close>, none when it is missing. With an \<open>auth_token\<close> in the bag that body is what
  the one request issued carries. Rendered by \<open>format_pet_details\<close>, the body shows
  \<open>Category: Uncategorized\<close> when \<open>category_name\<close> is missing and \<open>Tags: None\<close> when \<open>tag_names\<close>
  is missing.
\<close>

theorem add_pet_body:
  assumes "map_of arguments ''name'' = Some nm"
    and "map_of arguments ''tag_names'' = None \<and> ts = []
         \<or> (\<exists>v. map_of arguments ''tag_names'' = Some v \<and> py_iter v = Inr ts)"
  shows "\<exists>category status photos.
      (map_of arguments ''category_name'' = None \<longrightarrow> category = PStr ''Uncategorized'')
    \<and> (\<forall>c. map_of arguments ''category_name'' = Some c \<longrightarrow> category = c)
    \<and> (map_of arguments ''status'' = None \<longrightarrow> status = PStr ''available'')
    \<and> (\<forall>s. map_of arguments ''status'' = Some s \<longrightarrow> status = s)
    \<and> (map_of arguments ''photo_urls'' = None \<longrightarrow> photos = PList [])
    \<and> (\<forall>p. map_of arguments ''photo_urls'' = Some p \<longrightarrow> photos = p)
    \<and> pet_data arguments =
         Inr (PDict [(''name'', nm), (''category'', PDict [(''name'', category)]), (''status'', status),
                     (''photoUrls'', photos), (''tags'', PList (map (\<lambda>tag. PDict [(''name'', tag)]) ts))])
    \<and> (\<forall>auth_token. map_of arguments ''auth_token'' = Some auth_token \<longrightarrow>
          sent (snd (call_tool api_client net ''add_pet'' arguments w))
            = sent w @ [build_request api_client ''POST'' ''/pet'' auth_token PNone
                 (PDict [(''name'', nm), (''category'', PDict [(''name'', category)]), (''status'', status),
                         (''photoUrls'', photos), (''tags'', PList (map (\<lambda>tag. PDict [(''name'', tag)]) ts))])])
    \<and> (\<forall>rendering. format_pet_details
                 (PDict [(''name'', nm), (''category'', PDict [(''name'', category)]), (''status'', status),
                         (''photoUrls'', photos), (''tags'', PList (map (\<lambda>tag. PDict [(''name'', tag)]) ts))])
               = Inr rendering \<longrightarrow>
          (\<exists>tags_text photos_text.
             rendering = ''Name: '' @ py_str nm @ newline @ ''ID: None'' @ newline
                    @ ''Category: '' @ py_str category @ newline
                    @ ''Status: '' @ py_str status @ newline
                    @ ''Tags: '' @ tags_text @ newline @ ''Photos: '' @ photos_text
             \<and> (map_of arguments ''tag_names'' = None \<longrightarrow> tags_text = ''None'')))"
proof -
  from assms(2) have iter: "py_iter (dict_get arguments ''tag_names'' (PList [])) = Inr ts"
    by (auto simp: dict_get_def)
  from assms(2) have omitted: "map_of arguments ''tag_names'' = None \<Longrightarrow> ts = []"
    by auto
  let ?category = "dict_get arguments ''category_name'' (PStr ''Uncategorized'')"
  let ?status = "dict_get arguments ''status'' (PStr ''available'')"
  let ?photos = "dict_get arguments ''photo_urls'' (PList [])"
  let ?body = "PDict [(''name'', nm), (''category'', PDict [(''name'', ?category)]), (''status'', ?status),
                      (''photoUrls'', ?photos), (''tags'', PList (map (\<lambda>tag. PDict [(''name'', tag)]) ts))]"
  have built: "pet_data arguments = Inr ?body"
    using assms(1) iter by (rule pet_data_built)
  have d1: "map_of arguments ''category_name'' = None \<longrightarrow> ?category = PStr ''Uncategorized''"
    and d2: "\<forall>c. map_of arguments ''category_name'' = Some c \<longrightarrow> ?category = c"
    and d3: "map_of arguments ''status'' = None \<longrightarrow> ?status = PStr ''available''"
    and d4: "\<forall>s. map_of arguments ''status'' = Some s \<longrightarrow> ?status = s"
    and d5: "map_of arguments ''photo_urls'' = None \<longrightarrow> ?photos = PList []"
    and d6: "\<forall>p. map_of arguments ''photo_urls'' = Some p \<longrightarrow> ?photos = p"
    by (simp_all add: dict_get_def)
  have issued: "\<forall>auth_token. map_of arguments ''auth_token'' = Some auth_token \<longrightarrow>
          sent (snd (call_tool api_client net ''add_pet'' arguments w))
            = sent w @ [build_request api_client ''POST'' ''/pet'' auth_token PNone ?body]"
    using built by (simp add: dispatch_add_pet_sent)
  have rendered: "\<forall>rendering. format_pet_details ?body = Inr rendering \<longrightarrow>
          (\<exists>tags_text photos_text.
             rendering = ''Name: '' @ py_str nm @ newline @ ''ID: None'' @ newline
                    @ ''Category: '' @ py_str ?category @ newline
                    @ ''Status: '' @ py_str ?status @ newline
                    @ ''Tags: '' @ tags_text @ newline @ ''Photos: '' @ photos_text
             \<and> (map_of arguments ''tag_names'' = None \<longrightarrow> tags_text = ''None''))"
  proof (intro allI impI)
    fix rendering
    assume "format_pet_details ?body = Inr rendering"
    from format_pet_details_of_body [OF this]
    obtain tags_text photos_text where
      shape: "rendering = ''Name: '' @ py_str nm @ newline @ ''ID: None'' @ newline
                    @ ''Category: '' @ py_str ?category @ newline
                    @ ''Status: '' @ py_str ?status @ newline
                    @ ''Tags: '' @ tags_text @ newline @ ''Photos: '' @ photos_text"
      and none: "ts = [] \<longrightarrow> tags_text = ''None''"
      by blast
    from none omitted have "map_of arguments ''tag_names'' = None \<longrightarrow> tags_text = ''None''"
      by simp
    with shape show "\<exists>tags_text photos_text.
             rendering = ''Name: '' @ py_str nm @ newline @ ''ID: None'' @ newline
                    @ ''Category: '' @ py_str ?category @ newline
                    @ ''Status: '' @ py_str ?status @ newline
                    @ ''Tags: '' @ tags_text @ newline @ ''Photos: '' @ photos_text
             \<and> (map_of arguments ''tag_names'' = None \<longrightarrow> tags_text = ''None'')"
      by (intro exI conjI)
  qed
  show ?thesis
    apply (rule exI [of _ ?category])
    apply (rule exI [of _ ?status])
    apply (rule exI [of _ ?photos])
    apply (intro conjI)
            apply (rule d1)
           apply (rule d2)
          apply (rule d3)
         apply (rule d4)
        apply (rule d5)
       apply (rule d6)
      apply (rule built)
     apply (rule issued)
    apply (rule rendered)
    done
qed


theorem add_pet_body_witness:
  "pet_data [(''name'', PStr ''Rex''), (''auth_token'', PStr ''tok'')]
     = Inr (PDict [(''name'', PStr ''Rex''), (''category'', PDict [(''name'', PStr ''Uncategorized'')]),
                   (''status'', PStr ''available''), (''photoUrls'', PList []), (''tags'', PList [])])
   \<and> pet_data [(''name'', PStr ''Rex''), (''category_name'', PStr ''Dogs''), (''status'', PStr ''sold''),
               (''tag_names'', PList [PStr ''friendly'', PStr ''small'']), (''auth_token'', PStr ''tok'')]
     = Inr (PDict [(''name'', PStr ''Rex''), (''category'', PDict [(''name'', PStr ''Dogs'')]),
                   (''status'', PStr ''sold''), (''photoUrls'', PList []),
                   (''tags'', PList [PDict [(''name'', PStr ''friendly'')], PDict [(''name'', PStr ''small'')]])])
   \<and> call_tool local_client echo ''add_pet'' [(''name'', PStr ''Rex''), (''auth_token'', PStr ''tok'')] idle
     = (Inr [TextContent ''text''
               (''Pet added successfully:'' @ backslash_n
                @ ''Name: Rex'' @ newline @ ''ID: None'' @ newline @ ''Category: Uncategorized'' @ newline
                @ ''Status: available'' @ newline @ ''Tags: None'' @ newline @ ''Photos: None'')],
        \<lparr>sent = [build_request local_client ''POST'' ''/pet'' (PStr ''tok'') PNone
                   (PDict [(''name'', PStr ''Rex''), (''category'', PDict [(''name'', PStr ''Uncategorized'')]),
                           (''status'', PStr ''available''), (''photoUrls'', PList []), (''tags'', PList [])])],
         printed = []\<rparr>)"
proof (intro conjI)
  have named: "map_of [(''name'', PStr ''Rex''), (''auth_token'', PStr ''tok'')] ''name'' = Some (PStr ''Rex'')"
    by simp
  have no_tags: "map_of [(''name'', PStr ''Rex''), (''auth_token'', PStr ''tok'')] ''tag_names'' = None \<and> [] = ([]::pyval list)
      \<or> (\<exists>v. map_of [(''name'', PStr ''Rex''), (''auth_token'', PStr ''tok'')] ''tag_names'' = Some v \<and> py_iter v = Inr [])"
    by simp
  from add_pet_body [OF named no_tags, of local_client echo idle]
  show first: "pet_data [(''name'', PStr ''Rex''), (''auth_token'', PStr ''tok'')]
     = Inr (PDict [(''name'', PStr ''Rex''), (''category'', PDict [(''name'', PStr ''Uncategorized'')]),
                   (''status'', PStr ''available''), (''photoUrls'', PList []), (''tags'', PList [])])"
    by auto
  then show "call_tool local_client echo ''add_pet'' [(''name'', PStr ''Rex''), (''auth_token'', PStr ''tok'')] idle
     = (Inr [TextContent ''text''
               (''Pet added successfully:'' @ backslash_n
                @ ''Name: Rex'' @ newline @ ''ID: None'' @ newline @ ''Category: Uncategorized'' @ newline
                @ ''Status: available'' @ newline @ ''Tags: None'' @ newline @ ''Photos: None'')],
        \<lparr>sent = [build_request local_client ''POST'' ''/pet'' (PStr ''tok'') PNone
                   (PDict [(''name'', PStr ''Rex''), (''category'', PDict [(''name'', PStr ''Uncategorized'')]),
                           (''status'', PStr ''available''), (''photoUrls'', PList []), (''tags'', PList [])])],
         printed = []\<rparr>)"
    by (simp add: call_tool_def call_tool_try_def call_add_pet_def add_pet_def subscript_def
          make_request_def make_request_try_def echo_def idle_def build_request_def
          io_try_def io_bind_def io_lift_def io_return_def http_request_def
          format_pet_details_def pet_category_def pet_tags_def py_join_def dict_get_def exn_bind_def str_or_def)
next
  have named: "map_of [(''name'', PStr ''Rex''), (''category_name'', PStr ''Dogs''), (''status'', PStr ''sold''),
               (''tag_names'', PList [PStr ''friendly'', PStr ''small'']), (''auth_token'', PStr ''tok'')] ''name''
               = Some (PStr ''Rex'')"
    by simp
  have tagged: "map_of [(''name'', PStr ''Rex''), (''category_name'', PStr ''Dogs''), (''status'', PStr ''sold''),
               (''tag_names'', PList [PStr ''friendly'', PStr ''small'']), (''auth_token'', PStr ''tok'')] ''tag_names''
               = None \<and> [PStr ''friendly'', PStr ''small''] = []
      \<or> (\<exists>v. map_of [(''name'', PStr ''Rex''), (''category_name'', PStr ''Dogs''), (''status'', PStr ''sold''),
               (''tag_names'', PList [PStr ''friendly'', PStr ''small'']), (''auth_token'', PStr ''tok'')] ''tag_names''
               = Some v \<and> py_iter v = Inr [PStr ''friendly'', PStr ''small''])"
    by simp
  from add_pet_body [OF named tagged, of local_client echo idle]
  show "pet_data [(''name'', PStr ''Rex''), (''category_name'', PStr ''Dogs''), (''status'', PStr ''sold''),
               (''tag_names'', PList [PStr ''friendly'', PStr ''small'']), (''auth_token'', PStr ''tok'')]
     = Inr (PDict [(''name'', PStr ''Rex''), (''category'', PDict [(''name'', PStr ''Dogs'')]),
                   (''status'', PStr ''sold''), (''photoUrls'', PList []),
                   (''tags'', PList [PDict [(''name'', PStr ''friendly'')], PDict [(''name'', PStr ''small'')]])])"
    by auto
qed

text \<open>
  A bag with a name whose \<open>tag_names\<close> is \<open>None\<close>: the list comprehension raises, no body
  is built and no request is issued.
\<close>

theorem null_tag_names_is_an_error:
  "pet_data [(''name'', PStr ''Rex''), (''tag_names'', PNone), (''auth_token'', PStr ''tok'')]
     = Inl (TypeError (squote @ ''NoneType'' @ squote @ '' object is not iterable''))
   \<and> call_tool local_client echo ''add_pet''
        [(''name'', PStr ''Rex''), (''tag_names'', PNone), (''auth_token'', PStr ''tok'')] idle
     = (Inr [TextContent ''text'' (''Error: '' @ squote @ ''NoneType'' @ squote @ '' object is not iterable'')], idle)"
  by (simp add: pet_data_def call_tool_def call_tool_try_def call_add_pet_def subscript_def dict_get_def
        exn_bind_def io_try_def io_bind_def io_lift_def io_return_def TypeError_def)

section \<open>Properties of the formatters\<close>

text \<open>
  C9. For every order and every user (a JSON object): an order without \<open>shipDate\<close> is
  rendered with the line \<open>Ship Date: Not set\<close>, one without \<open>complete\<close> with
  \<open>Complete: False\<close>; a user without \<open>email\<close> with \<open>Email: Not provided\<close>, without \<open>phone\<close>
  with \<open>Phone: Not provided\<close>, without \<open>role\<close> with \<open>Role: customer\<close>, without \<open>userStatus\<close>
  with \<open>Status: 1\<close>. The formatter does not raise in any of these cases.
\<close>

theorem formatter_defaults:
  "(map_of order ''shipDate'' = None \<longrightarrow>
      (\<exists>a b c d e. format_order_details (PDict order)
         = Inr (''Order ID: '' @ a @ newline @ ''Pet ID: '' @ b @ newline @ ''Quantity: '' @ c @ newline
                @ ''Status: '' @ d @ newline @ ''Ship Date: Not set'' @ newline @ ''Complete: '' @ e)))
   \<and> (map_of order ''complete'' = None \<longrightarrow>
      (\<exists>a b c d e. format_order_details (PDict order)
         = Inr (''Order ID: '' @ a @ newline @ ''Pet ID: '' @ b @ newline @ ''Quantity: '' @ c @ newline
                @ ''Status: '' @ d @ newline @ ''Ship Date: '' @ e @ newline @ ''Complete: False'')))
   \<and> (map_of user ''email'' = None \<longrightarrow>
      (\<exists>a b c d e f. format_user_details (PDict user)
         = Inr (''Username: '' @ a @ newline @ ''Name: '' @ b @ '' '' @ c @ newline
                @ ''Email: Not provided'' @ newline @ ''Phone: '' @ d @ newline
                @ ''Role: '' @ e @ newline @ ''Status: '' @ f)))
   \<and> (map_of user ''phone'' = None \<longrightarrow>
      (\<exists>a b c d e f. format_user_details (PDict user)
         = Inr (''Username: '' @ a @ newline @ ''Name: '' @ b @ '' '' @ c @ newline
                @ ''Email: '' @ d @ newline @ ''Phone: Not provided'' @ newline
                @ ''Role: '' @ e @ newline @ ''Status: '' @ f)))
   \<and> (map_of user ''role'' = None \<longrightarrow>
      (\<exists>a b c d e f. format_user_details (PDict user)
         = Inr (''Username: '' @ a @ newline @ ''Name: '' @ b @ '' '' @ c @ newline
                @ ''Email: '' @ d @ newline @ ''Phone: '' @ e @ newline
                @ ''Role: customer'' @ newline @ ''Status: '' @ f)))
   \<and> (map_of user ''userStatus'' = None \<longrightarrow>
      (\<exists>a b c d e f. format_user_details (PDict user)
         = Inr (''Username: '' @ a @ newline @ ''Name: '' @ b @ '' '' @ c @ newline
                @ ''Email: '' @ d @ newline @ ''Phone: '' @ e @ newline
                @ ''Role: '' @ f @ newline @ ''Status: 1'')))"
proof (intro conjI impI)
  assume "map_of order ''shipDate'' = None"
  then have "format_order_details (PDict order)
         = Inr (''Order ID: '' @ py_str (dict_get order ''id'' PNone) @ newline
                @ ''Pet ID: '' @ py_str (dict_get order ''petId'' PNone) @ newline
                @ ''Quantity: '' @ py_str (dict_get order ''quantity'' PNone) @ newline
                @ ''Status: '' @ py_str (dict_get order ''status'' PNone) @ newline
                @ ''Ship Date: Not set'' @ newline
                @ ''Complete: '' @ py_str (dict_get order ''complete'' (PBool False)))"
    by (simp add: format_order_details_def exn_bind_def dict_get_def)
  then show "\<exists>a b c d e. format_order_details (PDict order)
         = Inr (''Order ID: '' @ a @ newline @ ''Pet ID: '' @ b @ newline @ ''Quantity: '' @ c @ newline
                @ ''Status: '' @ d @ newline @ ''Ship Date: Not set'' @ newline @ ''Complete: '' @ e)"
    by blast
next
  assume "map_of order ''complete'' = None"
  then have "format_order_details (PDict order)
         = Inr (''Order ID: '' @ py_str (dict_get order ''id'' PNone) @ newline
                @ ''Pet ID: '' @ py_str (dict_get order ''petId'' PNone) @ newline
                @ ''Quantity: '' @ py_str (dict_get order ''quantity'' PNone) @ newline
                @ ''Status: '' @ py_str (dict_get order ''status'' PNone) @ newline
                @ ''Ship Date: '' @ py_str (dict_get order ''shipDate'' (PStr ''Not set'')) @ newline
                @ ''Complete: False'')"
    by (simp add: format_order_details_def exn_bind_def dict_get_def)
  then show "\<exists>a b c d e. format_order_details (PDict order)
         = Inr (''Order ID: '' @ a @ newline @ ''Pet ID: '' @ b @ newline @ ''Quantity: '' @ c @ newline
                @ ''Status: '' @ d @ newline @ ''Ship Date: '' @ e @ newline @ ''Complete: False'')"
    by blast
next
  assume "map_of user ''email'' = None"
  then have "format_user_details (PDict user)
         = Inr (''Username: '' @ py_str (dict_get user ''username'' PNone) @ newline
                @ ''Name: '' @ py_str (dict_get user ''firstName'' (PStr [])) @ '' ''
                @ py_str (dict_get user ''lastName'' (PStr [])) @ newline
                @ ''Email: Not provided'' @ newline
                @ ''Phone: '' @ py_str (dict_get user ''phone'' (PStr ''Not provided'')) @ newline
                @ ''Role: '' @ py_str (dict_get user ''role'' (PStr ''customer'')) @ newline
                @ ''Status: '' @ py_str (dict_get user ''userStatus'' (PInt 1)))"
    by (simp add: format_user_details_def exn_bind_def dict_get_def)
  then show "\<exists>a b c d e f. format_user_details (PDict user)
         = Inr (''Username: '' @ a @ newline @ ''Name: '' @ b @ '' '' @ c @ newline
                @ ''Email: Not provided'' @ newline @ ''Phone: '' @ d @ newline
                @ ''Role: '' @ e @ newline @ ''Status: '' @ f)"
    by blast
next
  assume "map_of user ''phone'' = None"
  then have "format_user_details (PDict user)
         = Inr (''Username: '' @ py_str (dict_get user ''username'' PNone) @ newline
                @ ''Name: '' @ py_str (dict_get user ''firstName'' (PStr [])) @ '' ''
                @ py_str (dict_get user ''lastName'' (PStr [])) @ newline
                @ ''Email: '' @ py_str (dict_get user ''email'' (PStr ''Not provided'')) @ newline
                @ ''Phone: Not provided'' @ newline
                @ ''Role: '' @ py_str (dict_get user ''role'' (PStr ''customer'')) @ newline
                @ ''Status: '' @ py_str (dict_get user ''userStatus'' (PInt 1)))"
    by (simp add: format_user_details_def exn_bind_def dict_get_def)
  then show "\<exists>a b c d e f. format_user_details (PDict user)
         = Inr (''Username: '' @ a @ newline @ ''Name: '' @ b @ '' '' @ c @ newline
                @ ''Email: '' @ d @ newline @ ''Phone: Not provided'' @ newline
                @ ''Role: '' @ e @ newline @ ''Status: '' @ f)"
    by blast
next
  assume "map_of user ''role'' = None"
  then have "format_user_details (PDict user)
         = Inr (''Username: '' @ py_str (dict_get user ''username'' PNone) @ newline
                @ ''Name: '' @ py_str (dict_get user ''firstName'' (PStr [])) @ '' ''
                @ py_str (dict_get user ''lastName'' (PStr [])) @ newline
                @ ''Email: '' @ py_str (dict_get user ''email'' (PStr ''Not provided'')) @ newline
                @ ''Phone: '' @ py_str (dict_get user ''phone'' (PStr ''Not provided'')) @ newline
                @ ''Role: customer'' @ newline
                @ ''Status: '' @ py_str (dict_get user ''userStatus'' (PInt 1)))"
    by (simp add: format_user_details_def exn_bind_def dict_get_def)
  then show "\<exists>a b c d e f. format_user_details (PDict user)
         = Inr (''Username: '' @ a @ newline @ ''Name: '' @ b @ '' '' @ c @ newline
                @ ''Email: '' @ d @ newline @ ''Phone: '' @ e @ newline
                @ ''Role: customer'' @ newline @ ''Status: '' @ f)"
    by blast
next
  assume "map_of user ''userStatus'' = None"
  then have "format_user_details (PDict user)
         = Inr (''Username: '' @ py_str (dict_get user ''username'' PNone) @ newline
                @ ''Name: '' @ py_str (dict_get user ''firstName'' (PStr [])) @ '' ''
                @ py_str (dict_get user ''lastName'' (PStr [])) @ newline
                @ ''Email: '' @ py_str (dict_get user ''email'' (PStr ''Not provided'')) @ newline
                @ ''Phone: '' @ py_str (dict_get user ''phone'' (PStr ''Not provided'')) @ newline
                @ ''Role: '' @ py_str (dict_get user ''role'' (PStr ''customer'')) @ newline
                @ ''Status: 1'')"
    by (simp add: format_user_details_def exn_bind_def dict_get_def show_int_def show_nat.simps digit_char_def)
  then show "\<exists>a b c d e f. format_user_details (PDict user)
         = Inr (''Username: '' @ a @ newline @ ''Name: '' @ b @ '' '' @ c @ newline
                @ ''Email: '' @ d @ newline @ ''Phone: '' @ e @ newline
                @ ''Role: '' @ f @ newline @ ''Status: 1'')"
    by blast
qed


lemma show_int_digit:
  "show_int 1 = ''1''" "show_int 2 = ''2''" "show_int 7 = ''7''" "show_int 10 = ''10''"
  by (simp_all add: show_int_def show_nat.simps digit_char_def)

theorem formatter_defaults_witness:
  "format_order_details (PDict [(''id'', PInt 10), (''petId'', PInt 7), (''quantity'', PInt 1), (''status'', PStr ''placed'')])
     = Inr (''Order ID: 10'' @ newline @ ''Pet ID: 7'' @ newline @ ''Quantity: 1'' @ newline
            @ ''Status: placed'' @ newline @ ''Ship Date: Not set'' @ newline @ ''Complete: False'')
   \<and> format_user_details (PDict [(''username'', PStr ''ann''), (''firstName'', PStr ''Ann''), (''lastName'', PStr ''Lee'')])
     = Inr (''Username: ann'' @ newline @ ''Name: Ann Lee'' @ newline @ ''Email: Not provided'' @ newline
            @ ''Phone: Not provided'' @ newline @ ''Role: customer'' @ newline @ ''Status: 1'')
   \<and> (\<exists>a b c d e. format_order_details (PDict [(''id'', PInt 10), (''petId'', PInt 7), (''quantity'', PInt 1), (''status'', PStr ''placed'')])
         = Inr (''Order ID: '' @ a @ newline @ ''Pet ID: '' @ b @ newline @ ''Quantity: '' @ c @ newline
                @ ''Status: '' @ d @ newline @ ''Ship Date: Not set'' @ newline @ ''Complete: '' @ e))
   \<and> (\<exists>a b c d e f. format_user_details (PDict [(''username'', PStr ''ann''), (''firstName'', PStr ''Ann''), (''lastName'', PStr ''Lee'')])
         = Inr (''Username: '' @ a @ newline @ ''Name: '' @ b @ '' '' @ c @ newline
                @ ''Email: Not provided'' @ newline @ ''Phone: '' @ d @ newline
                @ ''Role: '' @ e @ newline @ ''Status: '' @ f))"
proof (intro conjI)
  show "format_order_details (PDict [(''id'', PInt 10), (''petId'', PInt 7), (''quantity'', PInt 1), (''status'', PStr ''placed'')])
     = Inr (''Order ID: 10'' @ newline @ ''Pet ID: 7'' @ newline @ ''Quantity: 1'' @ newline
            @ ''Status: placed'' @ newline @ ''Ship Date: Not set'' @ newline @ ''Complete: False'')"
    by (simp add: format_order_details_def exn_bind_def dict_get_def show_int_digit)
next
  show "format_user_details (PDict [(''username'', PStr ''ann''), (''firstName'', PStr ''Ann''), (''lastName'', PStr ''Lee'')])
     = Inr (''Username: ann'' @ newline @ ''Name: Ann Lee'' @ newline @ ''Email: Not provided'' @ newline
            @ ''Phone: Not provided'' @ newline @ ''Role: customer'' @ newline @ ''Status: 1'')"
    by (simp add: format_user_details_def exn_bind_def dict_get_def show_int_digit)
next
  have omitted: "map_of [(''id'', PInt 10), (''petId'', PInt 7), (''quantity'', PInt 1), (''status'', PStr ''placed'')]
                   ''shipDate'' = None"
    by simp
  from formatter_defaults
         [of "[(''id'', PInt 10), (''petId'', PInt 7), (''quantity'', PInt 1), (''status'', PStr ''placed'')]" "[]",
          THEN conjunct1, THEN mp, OF omitted]
  show "\<exists>a b c d e. format_order_details (PDict [(''id'', PInt 10), (''petId'', PInt 7), (''quantity'', PInt 1), (''status'', PStr ''placed'')])
         = Inr (''Order ID: '' @ a @ newline @ ''Pet ID: '' @ b @ newline @ ''Quantity: '' @ c @ newline
                @ ''Status: '' @ d @ newline @ ''Ship Date: Not set'' @ newline @ ''Complete: '' @ e)"
    .
next
  have omitted: "map_of [(''username'', PStr ''ann''), (''firstName'', PStr ''Ann''), (''lastName'', PStr ''Lee'')]
                   ''email'' = None"
    by simp
  from formatter_defaults
         [of "[]" "[(''username'', PStr ''ann''), (''firstName'', PStr ''Ann''), (''lastName'', PStr ''Lee'')]",
          THEN conjunct2, THEN conjunct2, THEN conjunct1, THEN mp, OF omitted]
  show "\<exists>a b c d e f. format_user_details (PDict [(''username'', PStr ''ann''), (''firstName'', PStr ''Ann''), (''lastName'', PStr ''Lee'')])
         = Inr (''Username: '' @ a @ newline @ ''Name: '' @ b @ '' '' @ c @ newline
                @ ''Email: Not provided'' @ newline @ ''Phone: '' @ d @ newline
                @ ''Role: '' @ e @ newline @ ''Status: '' @ f)"
    .
qed

text \<open>A field that is present with the value \<open>None\<close> is rendered as that value, not as the default.\<close>

lemma format_order_details_null_ship_date:
  "format_order_details (PDict [(''id'', PInt 10), (''shipDate'', PNone)])
     = Inr (''Order ID: 10'' @ newline @ ''Pet ID: None'' @ newline @ ''Quantity: None'' @ newline
            @ ''Status: None'' @ newline @ ''Ship Date: None'' @ newline @ ''Complete: False'')"
  by (simp add: format_order_details_def exn_bind_def dict_get_def show_int_digit)


text \<open>
  The entries of a pet list: the defaults of a pet with neither category nor tags, the
  tag names in the order of the input, one entry for each pet, and the separator.
\<close>

lemma pet_entry_defaults:
  "map_of pet ''category'' = None \<Longrightarrow> map_of pet ''tags'' = None \<Longrightarrow>
   pet_entry (PDict pet)
     = Inr (bullet @ '' '' @ py_str (dict_get pet ''name'' (PStr ''Unnamed''))
            @ '' (ID: '' @ py_str (dict_get pet ''id'' PNone) @ '') - Unknown - Status: ''
            @ py_str (dict_get pet ''status'' PNone) @ '' - Tags: None'')"
  by (simp add: pet_entry_def pet_category_def pet_tags_def exn_bind_def dict_get_def str_or_def)

lemma pet_tags_in_order:
  "map_of pet ''tags'' = Some (PList (map (\<lambda>n. PDict [(''name'', PStr n)]) names)) \<Longrightarrow>
   pet_tags (PDict pet) = Inr (join_str '', '' names)"
proof -
  have names_of: "map_exn (\<lambda>tag. py_get tag ''name'' (PStr [])) (map (\<lambda>n. PDict [(''name'', PStr n)]) names)
                    = Inr (map PStr names)"
    by (induction names) (simp_all add: dict_get_def)
  have strings: "join_items i (map PStr names) = Inr names" for i
    by (induction names arbitrary: i) simp_all
  assume "map_of pet ''tags'' = Some (PList (map (\<lambda>n. PDict [(''name'', PStr n)]) names))"
  then show ?thesis
    by (simp add: pet_tags_def exn_bind_def dict_get_def names_of strings)
qed

lemma format_pets_list_joins_entries:
  "pets \<noteq> [] \<Longrightarrow> map_exn pet_entry pets = Inr entries \<Longrightarrow>
   format_pets_list (PList pets) = Inr (join_str backslash_n entries)"
  by (simp add: format_pets_list_def exn_bind_def)

lemma map_exn_length: "map_exn f xs = Inr ys \<Longrightarrow> length ys = length xs"
  by (induction xs arbitrary: ys) (auto split: sum.splits)

lemma pet_entry_rex:
  "pet_entry (PDict [(''id'', PInt 1), (''name'', PStr ''Rex''),
                   (''category'', PDict [(''id'', PInt 1), (''name'', PStr ''Dogs'')]),
                   (''status'', PStr ''available''),
                   (''tags'', PList [PDict [(''id'', PInt 1), (''name'', PStr ''friendly'')],
                                     PDict [(''id'', PInt 2), (''name'', PStr ''small'')]])])
     = Inr (bullet @ '' Rex (ID: 1) - Dogs - Status: available - Tags: friendly, small'')"
  by (simp add: pet_entry_def pet_category_def pet_tags_def exn_bind_def dict_get_def str_or_def show_int_digit)

lemma pet_entry_tom:
  "pet_entry (PDict [(''id'', PInt 2), (''name'', PStr ''Tom''), (''status'', PStr ''sold'')])
     = Inr (bullet @ '' Tom (ID: 2) - Unknown - Status: sold - Tags: None'')"
  by (simp add: pet_entry_def pet_category_def pet_tags_def exn_bind_def dict_get_def str_or_def show_int_digit)

text \<open>
  C8. The claim is that \<open>format_pets_list\<close> renders one line for each pet. On the list of
  two pets the entries are as the claim has them (category \<open>Unknown\<close> and tags \<open>None\<close> where
  missing, tag names in the order of the input), but what stands between them is a
  backslash and the letter n: the text holds no line break, it is one line.
\<close>

theorem format_pets_list_two_pets_one_line:
  "format_pets_list two_pets
     = Inr (bullet @ '' Rex (ID: 1) - Dogs - Status: available - Tags: friendly, small''
            @ backslash_n
            @ bullet @ '' Tom (ID: 2) - Unknown - Status: sold - Tags: None'')
   \<and> (\<exists>rendering. format_pets_list two_pets = Inr rendering \<and> CHR 0x0A \<notin> set rendering)"
proof -
  have rendered: "format_pets_list two_pets
     = Inr (bullet @ '' Rex (ID: 1) - Dogs - Status: available - Tags: friendly, small''
            @ backslash_n
            @ bullet @ '' Tom (ID: 2) - Unknown - Status: sold - Tags: None'')"
    by (simp add: format_pets_list_def two_pets_def pet_entry_rex pet_entry_tom exn_bind_def)
  have "CHR 0x0A \<notin> set (bullet @ '' Rex (ID: 1) - Dogs - Status: available - Tags: friendly, small''
            @ backslash_n
            @ bullet @ '' Tom (ID: 2) - Unknown - Status: sold - Tags: None'')"
    by (simp add: bullet_def backslash_n_def backslash_def)
  with rendered show ?thesis by simp
qed

end
